theory Spec2Isabelle
  imports Main
begin

section \<open>Data model (database/schema.sql)\<close>

text \<open>
  The tables the OTA routes read and write. A nullable column is an \<open>option\<close>
  (\<open>None\<close> is SQL NULL), an ENUM column a datatype, an AUTO_INCREMENT primary key a
  \<open>nat\<close>. A DATE is its day number, a TIMESTAMP a number of milliseconds; only their
  order matters below. Strings are lists of 8-bit characters, and the length limits of
  VARCHAR columns are not modelled. The columns \<open>created_at\<close> and \<open>updated_at\<close>, and the
  columns of \<open>rooms\<close> and \<open>bookings\<close> that no statement of the OTA routes uses, are left
  out.
\<close>

type_synonym date = int
type_synonym timestamp = nat

datatype booking_status = Pending | Confirmed | Cancelled | Completed | No_show

datatype sync_type = Availability | Rates | Inventory | Bookings

datatype sync_status = Success | Failed | Partial

record room =
  id_room :: nat
  room_name :: string
  price_per_night :: int
  max_occupancy :: nat
  is_active_room :: "bool option"

record booking =
  id_booking :: nat
  room_id :: "nat option"
  check_in_date :: date
  check_out_date :: date
  booking_status :: "booking_status option"

record ota_configuration =
  id_cfg :: nat
  ota_name :: string
  api_key :: "string option"
  api_username :: "string option"
  api_password :: "string option"
  endpoint_url :: "string option"
  hotel_id :: "string option"
  is_active :: "bool option"
  last_sync_at :: "timestamp option"
  sync_frequency :: "int option"

record ota_sync_log =
  id_log :: nat
  ota_configuration_id :: "nat option"
  sync_type :: sync_type
  status :: sync_status
  log_message :: string
  sync_started_at :: timestamp
  sync_completed_at :: "timestamp option"
  records_processed :: nat

text \<open>
  The persisted state: the four tables as lists of rows in insertion order, and the
  AUTO_INCREMENT counters of the two tables the routes insert into.
\<close>

record db =
  configurations :: "ota_configuration list"
  sync_logs :: "ota_sync_log list"
  rooms :: "room list"
  bookings :: "booking list"
  next_cfg_id :: nat
  next_log_id :: nat

section \<open>The availability query of performOTASync\<close>

text \<open>
  One row of the result of the room query: the columns of the room (\<open>r.*\<close>) and the
  computed column \<open>is_available\<close>.
\<close>

record room_row =
  row_room :: room
  is_available :: bool

text \<open>
  The ON clause of the LEFT JOIN: the booking is on this room, its status is pending or
  confirmed, and \<open>check_in_date <= CURDATE()\<close> and \<open>check_out_date > CURDATE()\<close>. A
  comparison with NULL is not true, so a booking without room or status never joins.
\<close>

definition join_on :: "date \<Rightarrow> room \<Rightarrow> booking \<Rightarrow> bool" where
  "join_on curdate r b =
     (room_id b = Some (id_room r)
      \<and> (booking_status b = Some Pending \<or> booking_status b = Some Confirmed)
      \<and> check_in_date b \<le> curdate
      \<and> check_out_date b > curdate)"

text \<open>
  \<open>SELECT r.*, CASE WHEN COUNT(b.id) = 0 THEN TRUE ELSE FALSE END ... WHERE r.is_active
  = TRUE GROUP BY r.id\<close>: \<open>id\<close> is the primary key of \<open>rooms\<close>, so every group is one
  room, and \<open>COUNT(b.id)\<close> is the number of bookings joined to it.
\<close>

definition select_rooms :: "date \<Rightarrow> room list \<Rightarrow> booking list \<Rightarrow> room_row list" where
  "select_rooms curdate rs bs =
     map (\<lambda>r. \<lparr>row_room = r,
               is_available = (length (filter (join_on curdate r) bs) = 0)\<rparr>)
         (filter (\<lambda>r. is_active_room r = Some True) rs)"


section \<open>The store and the network as the routes see them\<close>

text \<open>
  A statement is a function of the stored tables that returns an error message
  (\<open>Inl\<close>, a violated constraint) or its result and the new tables. The constraints
  are those of MySQL with InnoDB tables, which the README and schema.sql name. The world
  of a request is the stored tables, the SQL statements issued so far and the HTTP
  requests sent so far; the two logs are observations, not persisted state.
\<close>

datatype sql =
    Select_rooms
  | Insert_sync_log
  | Update_last_sync
  | Select_config_by_name
  | Insert_config
  | Select_created_config
  | Select_config_by_id
  | Update_config
  | Delete_config
  | Select_active_config_by_id
  | Select_active_configs
  | Select_sync_logs

type_synonym 'a statement = "db \<Rightarrow> string + ('a \<times> db)"

datatype http_method = GET | POST

datatype authorization = Basic "string option" "string option" | Bearer "string option"

datatype header =
    Content_Type string
  | Authorization authorization
  | X_Hotel_Id "string option"
  | X_Airbnb_API_Version string

text \<open>
  The payloads, field by field in the order of the source. A number that the source
  prints into a string (\<open>Date.now()\<close> in a request id, \<open>room.id.toString()\<close>) is kept
  as the number, and a formatted date as the date. \<open>is_available\<close> reaches the
  adapters as the number 1 or 0 of the SQL CASE; Booking.com and Agoda are sent 1 or 0,
  and the Airbnb payload carries the value as it is, here the truth value.
  Serialisation to XML or JSON is the library's and is not modelled.
\<close>

datatype restrictions = Restrictions nat nat nat nat
  \<comment> \<open>min_stay, max_stay, closed_to_arrival, closed_to_departure\<close>

datatype booking_com_room = Booking_com_room nat string int nat nat restrictions
  \<comment> \<open>room_id, room_name, rate, availability, inventory, restrictions\<close>

datatype agoda_rate = Agoda_rate string int date nat nat
  \<comment> \<open>RatePlan, Rate, Date, Availability, Inventory\<close>

datatype agoda_room = Agoda_room nat string "agoda_rate list"
  \<comment> \<open>RoomId, RoomType, Rates\<close>

datatype airbnb_operation = Airbnb_operation nat bool int string date nat
  \<comment> \<open>room_id, availability, price amount, price currency, date, minimum_nights\<close>

datatype body =
    Ari_update "string option" "string option" "string option" "booking_com_room list"
    \<comment> \<open>authentication username and password, hotel_id, rooms\<close>
  | Agoda_ari "string option" nat "agoda_room list"
    \<comment> \<open>HotelId, the number in RequestId \<open>agoda_<n>\<close>, Rooms\<close>
  | Airbnb_ari "string option" "airbnb_operation list"
    \<comment> \<open>listing_id, operations\<close>
  | Test_connection "string option" "string option" "string option"
    \<comment> \<open>authentication username and password, hotel_id\<close>
  | Agoda_test "string option" nat
    \<comment> \<open>HotelId, the number in RequestId \<open>test_<n>\<close>\<close>
  | No_body

record http_request =
  http_method :: http_method
  url :: "string option"
  headers :: "header list"
  body :: body
  timeout :: nat

record world =
  store :: db
  sql_log :: "sql list"
  http_log :: "http_request list"

text \<open>
  What the environment decides during one call of performOTASync: the dates and times
  read, the answer of the partner to a request (\<open>Inr\<close> the response data of a 2xx
  answer, \<open>Inl\<close> the message of the error axios throws otherwise: non-2xx status,
  transport error, timeout), and for each of the four \<open>db.execute\<close> calls whether the
  store fails there (\<open>Some\<close> the message of the error thrown).
\<close>

record sync_env =
  curdate :: date
  now :: timestamp
  moment_today :: date
  date_now :: nat
  http :: "http_request \<Rightarrow> string + string"
  rooms_fault :: "string option"
  log_fault :: "string option"
  update_fault :: "string option"
  catch_log_fault :: "string option"

text \<open>
  Modelled from the spec: the module \<open>config/database\<close> that exports \<open>db.execute\<close>
  is not among the sources. As the routes use it and as the spec describes the store
  (a plain persistence boundary whose errors the routes catch), \<open>db.execute\<close> runs one
  statement with its parameters bound and returns the rows, or the header with
  \<open>insertId\<close>, or throws; an absent parameter is bound as NULL. The fault is the
  environment's: \<open>Some\<close> the message of an error the store throws at this call, for
  a reason other than a constraint (connection lost, deadlock, timeout).
\<close>

definition db_execute ::
  "sql \<Rightarrow> string option \<Rightarrow> 'a statement \<Rightarrow> world \<Rightarrow> (string + 'a) \<times> world" where
  "db_execute q fault stmt w =
     (let w1 = w\<lparr>sql_log := sql_log w @ [q]\<rparr> in
      case fault of
        Some e \<Rightarrow> (Inl e, w1)
      | None \<Rightarrow>
          (case stmt (store w1) of
             Inl e \<Rightarrow> (Inl e, w1)
           | Inr (res, d) \<Rightarrow> (Inr res, w1\<lparr>store := d\<rparr>)))"

definition axios ::
  "(http_request \<Rightarrow> string + string) \<Rightarrow> http_request \<Rightarrow> world \<Rightarrow> (string + string) \<times> world" where
  "axios answer req w = (answer req, w\<lparr>http_log := http_log w @ [req]\<rparr>)"

text \<open>
  \<open>String.prototype.toLowerCase\<close> on the letters A to Z. The names the dispatch
  compares with are ASCII, so no other character can lower-case into them within 8-bit
  strings.
\<close>

definition lower_char :: "char \<Rightarrow> char" where
  "lower_char c =
     (case map_of (zip ''ABCDEFGHIJKLMNOPQRSTUVWXYZ'' ''abcdefghijklmnopqrstuvwxyz'') c of
        None \<Rightarrow> c
      | Some l \<Rightarrow> l)"

definition toLowerCase :: "string \<Rightarrow> string" where
  "toLowerCase s = map lower_char s"

section \<open>Statements of the sync path\<close>

definition select_rooms_stmt :: "date \<Rightarrow> (room_row list) statement" where
  "select_rooms_stmt d s = Inr (select_rooms d (rooms s) (bookings s), s)"

text \<open>
  \<open>INSERT INTO ota_sync_logs (...) VALUES (?, ?, ?, ?, ?, NOW())\<close>. The column
  \<open>sync_started_at\<close> takes its default CURRENT_TIMESTAMP. The foreign key of
  \<open>ota_configuration_id\<close> refuses a row whose configuration does not exist.
\<close>

definition insert_sync_log ::
  "timestamp \<Rightarrow> nat \<Rightarrow> sync_type \<Rightarrow> sync_status \<Rightarrow> string \<Rightarrow> nat \<Rightarrow> unit statement" where
  "insert_sync_log t otaConfigId syncType st msg recordsProcessed s =
     (if list_ex (\<lambda>c. id_cfg c = otaConfigId) (configurations s)
      then Inr ((), s\<lparr>sync_logs := sync_logs s @
                  [\<lparr>id_log = next_log_id s, ota_configuration_id = Some otaConfigId,
                    sync_type = syncType, status = st, log_message = msg,
                    sync_started_at = t, sync_completed_at = Some t,
                    records_processed = recordsProcessed\<rparr>],
                next_log_id := Suc (next_log_id s)\<rparr>)
      else Inl ''Cannot add or update a child row: a foreign key constraint fails'')"

text \<open>\<open>UPDATE ota_configurations SET last_sync_at = NOW() WHERE id = ?\<close>\<close>

definition update_last_sync :: "timestamp \<Rightarrow> nat \<Rightarrow> unit statement" where
  "update_last_sync t cid s =
     Inr ((), s\<lparr>configurations :=
                 map (\<lambda>c. if id_cfg c = cid then c\<lparr>last_sync_at := Some t\<rparr> else c)
                     (configurations s)\<rparr>)"

section \<open>logSyncOperation\<close>

text \<open>
  The insert runs inside try/catch; the catch prints the error and the function
  returns normally.
\<close>

definition logSyncOperation ::
  "string option \<Rightarrow> timestamp \<Rightarrow> nat \<Rightarrow> sync_type \<Rightarrow> sync_status \<Rightarrow> string \<Rightarrow> nat
    \<Rightarrow> world \<Rightarrow> (string + unit) \<times> world" where
  "logSyncOperation fault t otaConfigId syncType st msg recordsProcessed w =
     (case db_execute Insert_sync_log fault
             (insert_sync_log t otaConfigId syncType st msg recordsProcessed) w of
        (Inl error, w1) \<Rightarrow> (Inr (), w1)
      | (Inr u, w1) \<Rightarrow> (Inr (), w1))"

section \<open>The partner adapters\<close>

record outcome =
  success :: bool
  message :: string
  data :: "string option"

definition booking_com_request :: "ota_configuration \<Rightarrow> room_row list \<Rightarrow> http_request" where
  "booking_com_request config rs =
     \<lparr>http_method = POST,
      url = endpoint_url config,
      headers = [Content_Type ''application/xml'',
                 Authorization (Basic (api_username config) (api_password config))],
      body = Ari_update (api_username config) (api_password config) (hotel_id config)
               (map (\<lambda>r. Booking_com_room (id_room (row_room r)) (room_name (row_room r))
                            (price_per_night (row_room r))
                            (if is_available r then 1 else 0) 1 (Restrictions 1 30 0 0)) rs),
      timeout = 30000\<rparr>"

definition agoda_request :: "sync_env \<Rightarrow> ota_configuration \<Rightarrow> room_row list \<Rightarrow> http_request" where
  "agoda_request env config rs =
     \<lparr>http_method = POST,
      url = endpoint_url config,
      headers = [Content_Type ''application/json'',
                 Authorization (Bearer (api_key config)),
                 X_Hotel_Id (hotel_id config)],
      body = Agoda_ari (hotel_id config) (date_now env)
               (map (\<lambda>r. Agoda_room (id_room (row_room r)) (room_name (row_room r))
                            [Agoda_rate ''Standard'' (price_per_night (row_room r))
                               (moment_today env) (if is_available r then 1 else 0) 1]) rs),
      timeout = 30000\<rparr>"

definition airbnb_request :: "sync_env \<Rightarrow> ota_configuration \<Rightarrow> room_row list \<Rightarrow> http_request" where
  "airbnb_request env config rs =
     \<lparr>http_method = POST,
      url = endpoint_url config,
      headers = [Content_Type ''application/json'',
                 Authorization (Bearer (api_key config)),
                 X_Airbnb_API_Version ''1.0''],
      body = Airbnb_ari (hotel_id config)
               (map (\<lambda>r. Airbnb_operation (id_room (row_room r)) (is_available r)
                            (price_per_night (row_room r)) ''USD'' (moment_today env) 1) rs),
      timeout = 30000\<rparr>"

text \<open>Each adapter posts its request inside try/catch and returns an outcome either way.\<close>

definition syncBookingComARI ::
  "sync_env \<Rightarrow> ota_configuration \<Rightarrow> room_row list \<Rightarrow> world \<Rightarrow> outcome \<times> world" where
  "syncBookingComARI env config rs w =
     (case axios (http env) (booking_com_request config rs) w of
        (Inr response, w1) \<Rightarrow>
          (\<lparr>success = True, message = ''Booking.com ARI sync completed successfully'',
            data = Some response\<rparr>, w1)
      | (Inl error, w1) \<Rightarrow>
          (\<lparr>success = False, message = ''Booking.com sync failed: '' @ error,
            data = None\<rparr>, w1))"

definition syncAgodaARI ::
  "sync_env \<Rightarrow> ota_configuration \<Rightarrow> room_row list \<Rightarrow> world \<Rightarrow> outcome \<times> world" where
  "syncAgodaARI env config rs w =
     (case axios (http env) (agoda_request env config rs) w of
        (Inr response, w1) \<Rightarrow>
          (\<lparr>success = True, message = ''Agoda ARI sync completed successfully'',
            data = Some response\<rparr>, w1)
      | (Inl error, w1) \<Rightarrow>
          (\<lparr>success = False, message = ''Agoda sync failed: '' @ error, data = None\<rparr>, w1))"

definition syncAirbnbARI ::
  "sync_env \<Rightarrow> ota_configuration \<Rightarrow> room_row list \<Rightarrow> world \<Rightarrow> outcome \<times> world" where
  "syncAirbnbARI env config rs w =
     (case axios (http env) (airbnb_request env config rs) w of
        (Inr response, w1) \<Rightarrow>
          (\<lparr>success = True, message = ''Airbnb ARI sync completed successfully'',
            data = Some response\<rparr>, w1)
      | (Inl error, w1) \<Rightarrow>
          (\<lparr>success = False, message = ''Airbnb sync failed: '' @ error, data = None\<rparr>, w1))"

section \<open>performOTASync\<close>

text \<open>
  The switch on \<open>config.ota_name.toLowerCase()\<close>. The default case throws, which is the
  \<open>Inl\<close> result here.
\<close>

definition dispatch ::
  "sync_env \<Rightarrow> ota_configuration \<Rightarrow> room_row list \<Rightarrow> world \<Rightarrow> (string + outcome) \<times> world" where
  "dispatch env config rs w =
     (let name = toLowerCase (ota_name config) in
      if name = ''booking.com'' \<or> name = ''booking_com'' then
        (case syncBookingComARI env config rs w of (syncResult, w1) \<Rightarrow> (Inr syncResult, w1))
      else if name = ''agoda'' then
        (case syncAgodaARI env config rs w of (syncResult, w1) \<Rightarrow> (Inr syncResult, w1))
      else if name = ''airbnb'' then
        (case syncAirbnbARI env config rs w of (syncResult, w1) \<Rightarrow> (Inr syncResult, w1))
      else (Inl (''Unsupported OTA: '' @ ota_name config), w))"

text \<open>
  The catch block of performOTASync: it logs a failed entry with the message of the
  error and zero records, and returns the failure.
\<close>

definition catch_block ::
  "sync_env \<Rightarrow> ota_configuration \<Rightarrow> string \<Rightarrow> world \<Rightarrow> (string + outcome) \<times> world" where
  "catch_block env config error w =
     (case logSyncOperation (catch_log_fault env) (now env) (id_cfg config)
             Availability Failed error 0 w of
        (Inl e, w1) \<Rightarrow> (Inl e, w1)
      | (Inr u, w1) \<Rightarrow> (Inr \<lparr>success = False, message = error, data = None\<rparr>, w1))"

text \<open>
  The try block: the room query, the dispatch, the log entry, the update of
  \<open>last_sync_at\<close>. An error thrown at any of them goes to the catch block. The result is
  \<open>Inl\<close> only where the promise of performOTASync would reject.
\<close>

definition performOTASync ::
  "sync_env \<Rightarrow> ota_configuration \<Rightarrow> world \<Rightarrow> (string + outcome) \<times> world" where
  "performOTASync env config w =
     (case db_execute Select_rooms (rooms_fault env) (select_rooms_stmt (curdate env)) w of
        (Inl error, w1) \<Rightarrow> catch_block env config error w1
      | (Inr rs, w1) \<Rightarrow>
          (case dispatch env config rs w1 of
             (Inl error, w2) \<Rightarrow> catch_block env config error w2
           | (Inr syncResult, w2) \<Rightarrow>
               (case logSyncOperation (log_fault env) (now env) (id_cfg config) Availability
                       (if success syncResult then Success else Failed)
                       (message syncResult) (length rs) w2 of
                  (Inl error, w3) \<Rightarrow> catch_block env config error w3
                | (Inr u, w3) \<Rightarrow>
                    (case db_execute Update_last_sync (update_fault env)
                            (update_last_sync (now env) (id_cfg config)) w3 of
                       (Inl error, w4) \<Rightarrow> catch_block env config error w4
                     | (Inr u', w4) \<Rightarrow> (Inr syncResult, w4)))))"

section \<open>Responses\<close>

datatype configuration_view =
  Configuration_view nat string "string option" "string option" "string option"
    "bool option" "int option"
  \<comment> \<open>id, ota_name, api_username, endpoint_url, hotel_id, is_active, sync_frequency\<close>

record sync_item =
  item_ota_name :: string
  item_success :: bool
  item_message :: string

record sync_all_body =
  total_otas :: nat
  successful_syncs :: nat
  failed_syncs :: nat
  results :: "sync_item list"

datatype response =
    Error_response nat string
    \<comment> \<open>status and \<open>error\<close>\<close>
  | Created_response "configuration_view option"
    \<comment> \<open>201 with \<open>configuration\<close>, the first row of the select of the created row\<close>
  | Message_response string
    \<comment> \<open>200 with \<open>message\<close>\<close>
  | Sync_response string bool string string
    \<comment> \<open>200 with \<open>message\<close>, \<open>success\<close>, \<open>details\<close>, \<open>ota_name\<close>\<close>
  | Sync_all_response sync_all_body
  | Logs_response "(ota_sync_log \<times> string) list"
    \<comment> \<open>200 with the log rows, each with the \<open>ota_name\<close> joined to it\<close>
  | Test_response string bool string
    \<comment> \<open>200 with \<open>ota_name\<close>, \<open>success\<close>, \<open>message\<close>\<close>

section \<open>POST /sync/:id and POST /sync-all\<close>

definition select_active_config_by_id :: "nat \<Rightarrow> (ota_configuration list) statement" where
  "select_active_config_by_id i s =
     Inr (filter (\<lambda>c. id_cfg c = i \<and> is_active c = Some True) (configurations s), s)"

definition select_active_configs :: "(ota_configuration list) statement" where
  "select_active_configs s = Inr (filter (\<lambda>c. is_active c = Some True) (configurations s), s)"

definition post_sync :: "string option \<Rightarrow> sync_env \<Rightarrow> nat \<Rightarrow> world \<Rightarrow> response \<times> world" where
  "post_sync select_fault env i w =
     (case db_execute Select_active_config_by_id select_fault (select_active_config_by_id i) w of
        (Inl error, w1) \<Rightarrow> (Error_response 500 ''Internal server error'', w1)
      | (Inr configs, w1) \<Rightarrow>
          (case configs of
             [] \<Rightarrow> (Error_response 404 ''Active OTA configuration not found'', w1)
           | config # rest \<Rightarrow>
               (case performOTASync env config w1 of
                  (Inl error, w2) \<Rightarrow> (Error_response 500 ''Internal server error'', w2)
                | (Inr result, w2) \<Rightarrow>
                    (Sync_response
                       (if success result then ''Sync completed successfully'' else ''Sync failed'')
                       (success result) (message result) (ota_name config), w2))))"

text \<open>
  \<open>configs.map(async config => ...)\<close> followed by \<open>Promise.all\<close>. Every task runs to its
  end whatever the others do; the tasks are composed here in the order of the list,
  each with its own environment (found by the id of its configuration). A task reads
  rooms and bookings, appends to the log table and updates its own configuration row,
  so another interleaving changes only the order and the ids of the log rows.
  \<open>Promise.all\<close> rejects when a task rejects.
\<close>

fun sync_tasks ::
  "(nat \<Rightarrow> sync_env) \<Rightarrow> ota_configuration list \<Rightarrow> world \<Rightarrow> (string + sync_item) list \<times> world" where
  "sync_tasks envs [] w = ([], w)"
| "sync_tasks envs (config # configs) w =
     (case performOTASync (envs (id_cfg config)) config w of
        (r, w1) \<Rightarrow>
          (case sync_tasks envs configs w1 of
             (rs, w2) \<Rightarrow>
               ((case r of
                   Inl error \<Rightarrow> Inl error
                 | Inr result \<Rightarrow>
                     Inr \<lparr>item_ota_name = ota_name config, item_success = success result,
                          item_message = message result\<rparr>) # rs, w2)))"

fun promise_all :: "(string + 'a) list \<Rightarrow> string + 'a list" where
  "promise_all [] = Inr []"
| "promise_all (Inl error # rs) = Inl error"
| "promise_all (Inr x # rs) =
     (case promise_all rs of Inl error \<Rightarrow> Inl error | Inr xs \<Rightarrow> Inr (x # xs))"

definition post_sync_all ::
  "string option \<Rightarrow> (nat \<Rightarrow> sync_env) \<Rightarrow> world \<Rightarrow> response \<times> world" where
  "post_sync_all select_fault envs w =
     (case db_execute Select_active_configs select_fault select_active_configs w of
        (Inl error, w1) \<Rightarrow> (Error_response 500 ''Internal server error'', w1)
      | (Inr configs, w1) \<Rightarrow>
          if length configs = 0
          then (Error_response 400 ''No active OTA configurations found'', w1)
          else
            (case sync_tasks envs configs w1 of
               (syncPromises, w2) \<Rightarrow>
                 (case promise_all syncPromises of
                    Inl error \<Rightarrow> (Error_response 500 ''Internal server error'', w2)
                  | Inr rs \<Rightarrow>
                      (Sync_all_response
                         \<lparr>total_otas = length configs,
                          successful_syncs = length (filter (\<lambda>r. item_success r) rs),
                          failed_syncs = length (filter (\<lambda>r. \<not> item_success r) rs),
                          results = rs\<rparr>, w2))))"

section \<open>POST /test-connection/:id\<close>

definition select_config_by_id :: "nat \<Rightarrow> (ota_configuration list) statement" where
  "select_config_by_id i s = Inr (filter (\<lambda>c. id_cfg c = i) (configurations s), s)"

definition booking_com_test_request :: "ota_configuration \<Rightarrow> http_request" where
  "booking_com_test_request config =
     \<lparr>http_method = POST,
      url = endpoint_url config,
      headers = [Content_Type ''application/xml'',
                 Authorization (Basic (api_username config) (api_password config))],
      body = Test_connection (api_username config) (api_password config) (hotel_id config),
      timeout = 15000\<rparr>"

definition agoda_test_request :: "nat \<Rightarrow> ota_configuration \<Rightarrow> http_request" where
  "agoda_test_request t config =
     \<lparr>http_method = POST,
      url = endpoint_url config,
      headers = [Content_Type ''application/json'', Authorization (Bearer (api_key config))],
      body = Agoda_test (hotel_id config) t,
      timeout = 15000\<rparr>"

text \<open>The template string \<open>`${config.endpoint_url}/test`\<close> prints a NULL url as \<open>null\<close>.\<close>

definition airbnb_test_request :: "ota_configuration \<Rightarrow> http_request" where
  "airbnb_test_request config =
     \<lparr>http_method = GET,
      url = Some ((case endpoint_url config of None \<Rightarrow> ''null'' | Some u \<Rightarrow> u) @ ''/test''),
      headers = [Authorization (Bearer (api_key config)), X_Airbnb_API_Version ''1.0''],
      body = No_body,
      timeout = 15000\<rparr>"

text \<open>
  The inner try/catch of the route: a request that fails gives the result
  \<open>Connection failed: ...\<close>; an unknown name gives a failed result without a request.
\<close>

definition test_switch ::
  "(http_request \<Rightarrow> string + string) \<Rightarrow> nat \<Rightarrow> ota_configuration \<Rightarrow> world
    \<Rightarrow> (bool \<times> string) \<times> world" where
  "test_switch answer t config w =
     (let name = toLowerCase (ota_name config);
          tested = (\<lambda>req ok.
            case axios answer req w of
              (Inr response, w1) \<Rightarrow> ((True, ok), w1)
            | (Inl error, w1) \<Rightarrow> ((False, ''Connection failed: '' @ error), w1))
      in
      if name = ''booking.com'' \<or> name = ''booking_com'' then
        tested (booking_com_test_request config) ''Booking.com connection successful''
      else if name = ''agoda'' then
        tested (agoda_test_request t config) ''Agoda connection successful''
      else if name = ''airbnb'' then
        tested (airbnb_test_request config) ''Airbnb connection successful''
      else ((False, ''Unsupported OTA: '' @ ota_name config), w))"

definition post_test_connection ::
  "string option \<Rightarrow> (http_request \<Rightarrow> string + string) \<Rightarrow> nat \<Rightarrow> nat \<Rightarrow> world
    \<Rightarrow> response \<times> world" where
  "post_test_connection select_fault answer t i w =
     (case db_execute Select_config_by_id select_fault (select_config_by_id i) w of
        (Inl error, w1) \<Rightarrow> (Error_response 500 ''Internal server error'', w1)
      | (Inr configs, w1) \<Rightarrow>
          (case configs of
             [] \<Rightarrow> (Error_response 404 ''OTA configuration not found'', w1)
           | config # rest \<Rightarrow>
               (case test_switch answer t config w1 of
                  ((ok, msg), w2) \<Rightarrow> (Test_response (ota_name config) ok msg, w2))))"

text \<open>
  Repeated calls on the same id; the environment of the k-th call from the end (store
  fault, partner answers, clock) is \<open>envs k\<close>.
\<close>

fun repeat_test_connection ::
  "(nat \<Rightarrow> string option \<times> (http_request \<Rightarrow> string + string) \<times> nat) \<Rightarrow> nat \<Rightarrow> nat
    \<Rightarrow> world \<Rightarrow> world" where
  "repeat_test_connection envs 0 i w = w"
| "repeat_test_connection envs (Suc k) i w =
     (case envs k of
        (select_fault, answer, t) \<Rightarrow>
          repeat_test_connection envs k i (snd (post_test_connection select_fault answer t i w)))"

section \<open>The configuration routes\<close>

text \<open>
  The fields the routes read from the JSON body; \<open>None\<close> is a field that is absent,
  which the statements bind as NULL.
\<close>

record configuration_body =
  b_ota_name :: "string option"
  b_api_key :: "string option"
  b_api_username :: "string option"
  b_api_password :: "string option"
  b_endpoint_url :: "string option"
  b_hotel_id :: "string option"
  b_sync_frequency :: "int option"
  b_is_active :: "bool option"

text \<open>\<open>!x\<close> on a string field: true when it is absent or empty.\<close>

definition falsy :: "string option \<Rightarrow> bool" where
  "falsy x = (case x of None \<Rightarrow> True | Some v \<Rightarrow> v = [])"

text \<open>
  \<open>SELECT id FROM ota_configurations WHERE ota_name = ?\<close>. Which strings the operator
  \<open>=\<close> of SQL holds equal is decided by the collation of the column, which
  schema.sql does not declare; it is the parameter \<open>coll\<close> (stored value first).
\<close>

definition select_config_by_name ::
  "(string \<Rightarrow> string \<Rightarrow> bool) \<Rightarrow> string \<Rightarrow> (nat list) statement" where
  "select_config_by_name coll name s =
     Inr (map id_cfg (filter (\<lambda>c. coll (ota_name c) name) (configurations s)), s)"

text \<open>
  The INSERT of the create route. \<open>is_active\<close> takes its default TRUE and
  \<open>last_sync_at\<close> is NULL. \<open>ota_name\<close> is NOT NULL. The result is \<open>insertId\<close>.
\<close>

definition insert_config :: "configuration_body \<Rightarrow> int option \<Rightarrow> nat statement" where
  "insert_config b freq s =
     (case b_ota_name b of
        None \<Rightarrow> Inl ''Column ota_name cannot be null''
      | Some name \<Rightarrow>
          Inr (next_cfg_id s,
               s\<lparr>configurations := configurations s @
                    [\<lparr>id_cfg = next_cfg_id s, ota_name = name, api_key = b_api_key b,
                      api_username = b_api_username b, api_password = b_api_password b,
                      endpoint_url = b_endpoint_url b, hotel_id = b_hotel_id b,
                      is_active = Some True, last_sync_at = None, sync_frequency = freq\<rparr>],
                 next_cfg_id := Suc (next_cfg_id s)\<rparr>))"

definition select_created_config :: "nat \<Rightarrow> (configuration_view list) statement" where
  "select_created_config i s =
     Inr (map (\<lambda>c. Configuration_view (id_cfg c) (ota_name c) (api_username c)
                     (endpoint_url c) (hotel_id c) (is_active c) (sync_frequency c))
              (filter (\<lambda>c. id_cfg c = i) (configurations s)), s)"

text \<open>
  POST /configurations. \<open>sync_frequency\<close> defaults to 60 when absent. The three
  faults are those of the three statements, in order.
\<close>

definition post_configurations ::
  "(string \<Rightarrow> string \<Rightarrow> bool) \<Rightarrow> string option \<Rightarrow> string option \<Rightarrow> string option
    \<Rightarrow> configuration_body \<Rightarrow> world \<Rightarrow> response \<times> world" where
  "post_configurations coll fault1 fault2 fault3 b w =
     (if falsy (b_ota_name b) \<or> falsy (b_endpoint_url b)
      then (Error_response 400 ''OTA name and endpoint URL are required'', w)
      else
        (case db_execute Select_config_by_name fault1
                (select_config_by_name coll (case b_ota_name b of Some n \<Rightarrow> n | None \<Rightarrow> [])) w of
           (Inl error, w1) \<Rightarrow> (Error_response 500 ''Internal server error'', w1)
         | (Inr existingConfig, w1) \<Rightarrow>
             if length existingConfig > 0
             then (Error_response 400 ''Configuration already exists for this OTA'', w1)
             else
               (case db_execute Insert_config fault2
                       (insert_config b
                          (case b_sync_frequency b of None \<Rightarrow> Some 60 | Some f \<Rightarrow> Some f)) w1 of
                  (Inl error, w2) \<Rightarrow> (Error_response 500 ''Internal server error'', w2)
                | (Inr configId, w2) \<Rightarrow>
                    (case db_execute Select_created_config fault3
                            (select_created_config configId) w2 of
                       (Inl error, w3) \<Rightarrow> (Error_response 500 ''Internal server error'', w3)
                     | (Inr createdConfig, w3) \<Rightarrow>
                         (Created_response
                            (case createdConfig of [] \<Rightarrow> None | v # rest \<Rightarrow> Some v), w3)))))"

text \<open>
  The UPDATE of PUT /configurations/:id sets every column from the body. \<open>ota_name\<close>
  is NOT NULL.
\<close>

definition update_config :: "nat \<Rightarrow> configuration_body \<Rightarrow> unit statement" where
  "update_config i b s =
     (case b_ota_name b of
        None \<Rightarrow>
          (if list_ex (\<lambda>c. id_cfg c = i) (configurations s)
           then Inl ''Column ota_name cannot be null''
           else Inr ((), s))
      | Some name \<Rightarrow>
          Inr ((), s\<lparr>configurations :=
                   map (\<lambda>c. if id_cfg c = i
                             then c\<lparr>ota_name := name, api_key := b_api_key b,
                                   api_username := b_api_username b,
                                   api_password := b_api_password b,
                                   endpoint_url := b_endpoint_url b,
                                   hotel_id := b_hotel_id b,
                                   sync_frequency := b_sync_frequency b,
                                   is_active := b_is_active b\<rparr>
                             else c)
                       (configurations s)\<rparr>))"

definition put_configuration ::
  "string option \<Rightarrow> string option \<Rightarrow> nat \<Rightarrow> configuration_body \<Rightarrow> world \<Rightarrow> response \<times> world" where
  "put_configuration fault1 fault2 i b w =
     (case db_execute Select_config_by_id fault1 (select_config_by_id i) w of
        (Inl error, w1) \<Rightarrow> (Error_response 500 ''Internal server error'', w1)
      | (Inr existingConfig, w1) \<Rightarrow>
          if length existingConfig = 0
          then (Error_response 404 ''Configuration not found'', w1)
          else
            (case db_execute Update_config fault2 (update_config i b) w1 of
               (Inl error, w2) \<Rightarrow> (Error_response 500 ''Internal server error'', w2)
             | (Inr u, w2) \<Rightarrow> (Message_response ''OTA configuration updated successfully'', w2)))"

text \<open>
  \<open>DELETE FROM ota_configurations WHERE id = ?\<close>. The foreign key of
  \<open>ota_sync_logs.ota_configuration_id\<close> is declared without ON DELETE, so the
  statement fails when a log row references the row it would delete.
\<close>

definition delete_config :: "nat \<Rightarrow> unit statement" where
  "delete_config i s =
     (if list_ex (\<lambda>c. id_cfg c = i) (configurations s)
         \<and> list_ex (\<lambda>l. ota_configuration_id l = Some i) (sync_logs s)
      then Inl ''Cannot delete or update a parent row: a foreign key constraint fails''
      else Inr ((), s\<lparr>configurations := filter (\<lambda>c. id_cfg c \<noteq> i) (configurations s)\<rparr>))"

definition delete_configuration ::
  "string option \<Rightarrow> string option \<Rightarrow> nat \<Rightarrow> world \<Rightarrow> response \<times> world" where
  "delete_configuration fault1 fault2 i w =
     (case db_execute Select_config_by_id fault1 (select_config_by_id i) w of
        (Inl error, w1) \<Rightarrow> (Error_response 500 ''Internal server error'', w1)
      | (Inr existingConfig, w1) \<Rightarrow>
          if length existingConfig = 0
          then (Error_response 404 ''Configuration not found'', w1)
          else
            (case db_execute Delete_config fault2 (delete_config i) w1 of
               (Inl error, w2) \<Rightarrow> (Error_response 500 ''Internal server error'', w2)
             | (Inr u, w2) \<Rightarrow> (Message_response ''OTA configuration deleted successfully'', w2)))"

section \<open>GET /sync-logs\<close>

text \<open>
  The inner JOIN of the log rows with their configurations, the optional filter on
  \<open>ota_id\<close>, ORDER BY \<open>sync_started_at\<close> DESC (rows with equal time in the reverse of
  their insertion order, which SQL leaves open), then LIMIT and OFFSET. A negative
  OFFSET is an error of the statement.
\<close>

definition select_sync_logs ::
  "nat option \<Rightarrow> nat \<Rightarrow> int \<Rightarrow> ((ota_sync_log \<times> string) list) statement" where
  "select_sync_logs ota_id lim off s =
     (if off < 0 then Inl ''You have an error in your SQL syntax''
      else
        Inr (take lim (drop (nat off)
               (rev (sort_key (\<lambda>row. sync_started_at (fst row))
                  (filter (\<lambda>row. case ota_id of None \<Rightarrow> True
                                  | Some i \<Rightarrow> ota_configuration_id (fst row) = Some i)
                     (concat (map (\<lambda>sl. map (\<lambda>oc. (sl, ota_name oc))
                                           (filter (\<lambda>oc. ota_configuration_id sl = Some (id_cfg oc))
                                              (configurations s)))
                                  (sync_logs s))))))), s))"

text \<open>\<open>limit\<close> defaults to 50 and \<open>page\<close> to 1 when absent; \<open>offset = (page - 1) * limit\<close>.\<close>

definition get_sync_logs ::
  "string option \<Rightarrow> nat option \<Rightarrow> nat option \<Rightarrow> nat option \<Rightarrow> world \<Rightarrow> response \<times> world" where
  "get_sync_logs fault ota_id limit_q page_q w =
     (let lim = (case limit_q of None \<Rightarrow> 50 | Some l \<Rightarrow> l);
          page = (case page_q of None \<Rightarrow> 1 | Some p \<Rightarrow> p);
          off = (int page - 1) * int lim
      in
      case db_execute Select_sync_logs fault (select_sync_logs ota_id lim off) w of
        (Inl error, w1) \<Rightarrow> (Error_response 500 ''Internal server error'', w1)
      | (Inr logs, w1) \<Rightarrow> (Logs_response logs, w1))"

section \<open>The store after schema.sql\<close>

text \<open>schema.sql inserts no configuration, log, room or booking.\<close>

definition initial_db :: db where
  "initial_db =
     \<lparr>configurations = [], sync_logs = [], rooms = [], bookings = [],
      next_cfg_id = 1, next_log_id = 1\<rparr>"

definition initial_world :: world where
  "initial_world = \<lparr>store = initial_db, sql_log = [], http_log = []\<rparr>"

section \<open>Notions used to state the properties\<close>

text \<open>
  The request that the adapter chosen by the switch of performOTASync sends for a
  configuration and a list of room rows; \<open>None\<close> when the switch takes its default
  case.
\<close>

definition ari_request ::
  "sync_env \<Rightarrow> ota_configuration \<Rightarrow> room_row list \<Rightarrow> http_request option" where
  "ari_request env config rs =
     (let name = toLowerCase (ota_name config) in
      if name = ''booking.com'' \<or> name = ''booking_com'' then Some (booking_com_request config rs)
      else if name = ''agoda'' then Some (agoda_request env config rs)
      else if name = ''airbnb'' then Some (airbnb_request env config rs)
      else None)"

text \<open>
  The dispatch of a configuration fails when no adapter is chosen or when the partner
  does not answer the request of the adapter with a 2xx response.
\<close>

definition adapter_fails :: "sync_env \<Rightarrow> ota_configuration \<Rightarrow> room_row list \<Rightarrow> bool" where
  "adapter_fails env config rs =
     (case ari_request env config rs of
        None \<Rightarrow> True
      | Some req \<Rightarrow> (case http env req of Inl error \<Rightarrow> True | Inr response \<Rightarrow> False))"

text \<open>
  The requests one task of POST /sync-all sends when its room query returns the rows
  \<open>rs\<close>: none when the query fails or no adapter is chosen, else the request of the
  adapter.
\<close>

definition sync_requests ::
  "sync_env \<Rightarrow> ota_configuration \<Rightarrow> room_row list \<Rightarrow> http_request list" where
  "sync_requests env config rs =
     (case rooms_fault env of
        Some e \<Rightarrow> []
      | None \<Rightarrow> (case ari_request env config rs of None \<Rightarrow> [] | Some req \<Rightarrow> [req]))"

text \<open>
  The number of configurations of a list whose dispatch fails, each task reading the
  rooms \<open>rms\<close> and bookings \<open>bks\<close> at its own date.
\<close>

definition failed_dispatches ::
  "(nat \<Rightarrow> sync_env) \<Rightarrow> ota_configuration list \<Rightarrow> room list \<Rightarrow> booking list \<Rightarrow> nat" where
  "failed_dispatches envs configs rms bks =
     length (filter (\<lambda>c. adapter_fails (envs (id_cfg c)) c
                            (select_rooms (curdate (envs (id_cfg c))) rms bks)) configs)"

text \<open>
  The sync of one configuration succeeds when the store executes its room query, its
  dispatch does not fail, and the store executes its update of \<open>last_sync_at\<close>.
\<close>

definition task_succeeds ::
  "sync_env \<Rightarrow> ota_configuration \<Rightarrow> room list \<Rightarrow> booking list \<Rightarrow> bool" where
  "task_succeeds env config rms bks =
     (rooms_fault env = None
      \<and> \<not> adapter_fails env config (select_rooms (curdate env) rms bks)
      \<and> update_fault env = None)"

text \<open>
  The default collation of MySQL 8, \<open>utf8mb4_0900_ai_ci\<close>, on names of ASCII
  letters, digits and punctuation: two names are equal when they are equal up to letter
  case.
\<close>

definition collation_ci :: "string \<Rightarrow> string \<Rightarrow> bool" where
  "collation_ci a b = (toLowerCase a = toLowerCase b)"

section \<open>Example data\<close>

text \<open>
  Two active rooms on day 10: the only booking of room 7 checks out on day 10, and a
  confirmed booking of room 8 runs from day 8 to day 11.
\<close>

definition room_a :: room where
  "room_a = \<lparr>id_room = 7, room_name = ''Deluxe'', price_per_night = 100, max_occupancy = 2,
              is_active_room = Some True\<rparr>"

definition room_b :: room where
  "room_b = \<lparr>id_room = 8, room_name = ''Suite'', price_per_night = 250, max_occupancy = 4,
              is_active_room = Some True\<rparr>"

definition booking_a :: booking where
  "booking_a = \<lparr>id_booking = 1, room_id = Some 7, check_in_date = 5, check_out_date = 10,
                 booking_status = Some Confirmed\<rparr>"

definition booking_b :: booking where
  "booking_b = \<lparr>id_booking = 2, room_id = Some 8, check_in_date = 8, check_out_date = 11,
                 booking_status = Some Confirmed\<rparr>"

text \<open>A partner that answers every request with 200, and one that refuses the connection.\<close>

definition always_ok :: "http_request \<Rightarrow> string + string" where
  "always_ok req = Inr ''OK''"

definition always_refused :: "http_request \<Rightarrow> string + string" where
  "always_refused req = Inl ''connect ECONNREFUSED''"

text \<open>An environment on day 10 in which the store executes every statement.\<close>

definition env_ok :: sync_env where
  "env_ok = \<lparr>curdate = 10, now = 864000000, moment_today = 10, date_now = 864000000,
             http = always_ok, rooms_fault = None, log_fault = None, update_fault = None,
             catch_log_fault = None\<rparr>"

text \<open>
  Three active configurations, named as in the README (\<open>Booking.com\<close>, \<open>Agoda\<close>) and
  with a partner that has no adapter (\<open>expedia\<close>), in a store with the two rooms above.
\<close>

definition config_booking :: ota_configuration where
  "config_booking =
     \<lparr>id_cfg = 1, ota_name = ''Booking.com'', api_key = None, api_username = Some ''user'',
      api_password = Some ''secret'', endpoint_url = Some ''https://supply-xml.booking.com/'',
      hotel_id = Some ''H1'', is_active = Some True, last_sync_at = None,
      sync_frequency = Some 60\<rparr>"

definition config_agoda :: ota_configuration where
  "config_agoda =
     \<lparr>id_cfg = 2, ota_name = ''Agoda'', api_key = Some ''k1'', api_username = None,
      api_password = None, endpoint_url = Some ''https://example/agoda'',
      hotel_id = Some ''H1'', is_active = Some True, last_sync_at = None,
      sync_frequency = Some 60\<rparr>"

definition config_expedia :: ota_configuration where
  "config_expedia =
     \<lparr>id_cfg = 3, ota_name = ''expedia'', api_key = Some ''k2'', api_username = None,
      api_password = None, endpoint_url = Some ''https://example/expedia'',
      hotel_id = Some ''H1'', is_active = Some True, last_sync_at = None,
      sync_frequency = Some 60\<rparr>"

definition example_world :: world where
  "example_world =
     \<lparr>store = \<lparr>configurations = [config_booking, config_agoda, config_expedia],
               sync_logs = [], rooms = [room_a, room_b], bookings = [booking_a, booking_b],
               next_cfg_id = 4, next_log_id = 1\<rparr>,
      sql_log = [], http_log = []\<rparr>"

text \<open>
  Environments of the tasks of one POST /sync-all: in \<open>refusing_envs\<close> the partner of
  configuration 2 refuses the connection; in \<open>midnight_envs\<close> the room query of
  configuration 2 runs on day 11, after midnight.
\<close>

definition refusing_envs :: "nat \<Rightarrow> sync_env" where
  "refusing_envs i = (if i = 2 then env_ok\<lparr>http := always_refused\<rparr> else env_ok)"

definition midnight_envs :: "nat \<Rightarrow> sync_env" where
  "midnight_envs i = (if i = 2 then env_ok\<lparr>curdate := 11, moment_today := 11\<rparr> else env_ok)"

text \<open>
  In \<open>deadlock_envs\<close> every partner answers, and the update of \<open>last_sync_at\<close> of
  configuration 2 fails in the store.
\<close>

definition deadlock_envs :: "nat \<Rightarrow> sync_env" where
  "deadlock_envs i = (if i = 2 then env_ok\<lparr>update_fault := Some ''Deadlock found''\<rparr> else env_ok)"

text \<open>Bodies of POST /configurations and PUT /configurations/:id.\<close>

definition body_agoda :: configuration_body where
  "body_agoda =
     \<lparr>b_ota_name = Some ''agoda'', b_api_key = Some ''k1'', b_api_username = Some ''user'',
      b_api_password = Some ''secret'', b_endpoint_url = Some ''https://example/agoda'',
      b_hotel_id = Some ''H1'', b_sync_frequency = Some 30, b_is_active = Some True\<rparr>"

definition body_Agoda :: configuration_body where
  "body_Agoda = body_agoda\<lparr>b_ota_name := Some ''Agoda''\<rparr>"

definition body_airbnb :: configuration_body where
  "body_airbnb =
     \<lparr>b_ota_name = Some ''airbnb'', b_api_key = Some ''k3'', b_api_username = Some ''host'',
      b_api_password = Some ''secret'', b_endpoint_url = Some ''https://api.airbnb.com/'',
      b_hotel_id = Some ''L9'', b_sync_frequency = Some 30, b_is_active = Some True\<rparr>"

text \<open>
  The store after an operator created \<open>agoda\<close> and then \<open>airbnb\<close> on the empty store,
  under the collation that compares strings exactly.
\<close>

definition two_configs_world :: world where
  "two_configs_world =
     snd (post_configurations (=) None None None body_airbnb
            (snd (post_configurations (=) None None None body_agoda initial_world)))"

text \<open>The example store after configuration 1 was synced once.\<close>

definition synced_world :: world where
  "synced_world = snd (performOTASync env_ok config_booking example_world)"

text \<open>Connection tests in which the store and the partner answer.\<close>

definition probe_envs :: "nat \<Rightarrow> string option \<times> (http_request \<Rightarrow> string + string) \<times> nat" where
  "probe_envs k = (None, always_ok, 864000000 + k)"

section \<open>Availability of a room in the snapshot\<close>




section \<open>How performOTASync runs\<close>


lemma logSyncOperation_fst: "fst (logSyncOperation f t i ty st m n w) = Inr ()"
  by (simp add: logSyncOperation_def split: prod.splits sum.splits)

lemma logSyncOperation_world:
  "snd (logSyncOperation f t i ty st m n w) =
     (if f = None \<and> list_ex (\<lambda>c. id_cfg c = i) (configurations (store w))
      then w\<lparr>sql_log := sql_log w @ [Insert_sync_log],
             store := (store w)\<lparr>sync_logs := sync_logs (store w) @
                  [\<lparr>id_log = next_log_id (store w), ota_configuration_id = Some i,
                    sync_type = ty, status = st, log_message = m,
                    sync_started_at = t, sync_completed_at = Some t,
                    records_processed = n\<rparr>],
                next_log_id := Suc (next_log_id (store w))\<rparr>\<rparr>
      else w\<lparr>sql_log := sql_log w @ [Insert_sync_log]\<rparr>)"
  by (auto simp: logSyncOperation_def db_execute_def insert_sync_log_def Let_def split: prod.splits sum.splits option.splits)

lemma logSyncOperation_eq:
  "logSyncOperation f t i ty st m n w = (Inr (), snd (logSyncOperation f t i ty st m n w))"
  by (metis logSyncOperation_fst prod.collapse)

lemma catch_block_eq:
  "catch_block env c e w =
     (Inr \<lparr>success = False, message = e, data = None\<rparr>,
      snd (logSyncOperation (catch_log_fault env) (now env) (id_cfg c) Availability Failed e 0 w))"
  unfolding catch_block_def
  by (subst logSyncOperation_eq) simp

lemma dispatch_unsupported:
  "ari_request env c rs = None \<Longrightarrow> dispatch env c rs w = (Inl (''Unsupported OTA: '' @ ota_name c), w)"
  by (simp add: ari_request_def dispatch_def Let_def split: if_splits)

lemma dispatch_supported:
  "ari_request env c rs = Some req \<Longrightarrow>
   \<exists>r. dispatch env c rs w = (Inr r, w\<lparr>http_log := http_log w @ [req]\<rparr>)
        \<and> success r = (\<not> adapter_fails env c rs)
        \<and> dispatch env c rs w' = (Inr r, w'\<lparr>http_log := http_log w' @ [req]\<rparr>)"
  by (auto simp: ari_request_def adapter_fails_def dispatch_def Let_def syncBookingComARI_def syncAgodaARI_def
      syncAirbnbARI_def axios_def split: if_splits sum.splits)

lemma select_rooms_exec:
  "db_execute Select_rooms f (select_rooms_stmt d) w =
     (case f of Some e \<Rightarrow> (Inl e, w\<lparr>sql_log := sql_log w @ [Select_rooms]\<rparr>)
      | None \<Rightarrow> (Inr (select_rooms d (rooms (store w)) (bookings (store w))), w\<lparr>sql_log := sql_log w @ [Select_rooms]\<rparr>))"
  by (simp add: db_execute_def select_rooms_stmt_def Let_def split: option.splits)

lemma update_exec:
  "db_execute Update_last_sync f (update_last_sync t i) w =
     (case f of Some e \<Rightarrow> (Inl e, w\<lparr>sql_log := sql_log w @ [Update_last_sync]\<rparr>)
      | None \<Rightarrow> (Inr (), w\<lparr>sql_log := sql_log w @ [Update_last_sync],
           store := (store w)\<lparr>configurations := map (\<lambda>c. if id_cfg c = i then c\<lparr>last_sync_at := Some t\<rparr> else c)
                     (configurations (store w))\<rparr>\<rparr>))"
  by (simp add: db_execute_def update_last_sync_def Let_def split: option.splits)


lemma performOTASync_rooms_fault:
  "rooms_fault env = Some e \<Longrightarrow>
   performOTASync env c w = catch_block env c e (w\<lparr>sql_log := sql_log w @ [Select_rooms]\<rparr>)"
  by (simp add: performOTASync_def select_rooms_exec)

lemma performOTASync_unsupported:
  "rooms_fault env = None \<Longrightarrow>
   ari_request env c (select_rooms (curdate env) (rooms (store w)) (bookings (store w))) = None \<Longrightarrow>
   performOTASync env c w =
     catch_block env c (''Unsupported OTA: '' @ ota_name c) (w\<lparr>sql_log := sql_log w @ [Select_rooms]\<rparr>)"
  by (simp add: performOTASync_def select_rooms_exec dispatch_unsupported)

lemma performOTASync_supported:
  assumes "rooms_fault env = None"
    and "dispatch env c (select_rooms (curdate env) (rooms (store w)) (bookings (store w)))
           (w\<lparr>sql_log := sql_log w @ [Select_rooms]\<rparr>) = (Inr r, w2)"
    and "w3 = snd (logSyncOperation (log_fault env) (now env) (id_cfg c) Availability
                 (if success r then Success else Failed) (message r)
                 (length (select_rooms (curdate env) (rooms (store w)) (bookings (store w)))) w2)"
  shows "performOTASync env c w =
     (case update_fault env of
        Some e \<Rightarrow> catch_block env c e (w3\<lparr>sql_log := sql_log w3 @ [Update_last_sync]\<rparr>)
      | None \<Rightarrow> (Inr r, w3\<lparr>sql_log := sql_log w3 @ [Update_last_sync],
           store := (store w3)\<lparr>configurations :=
              map (\<lambda>x. if id_cfg x = id_cfg c then x\<lparr>last_sync_at := Some (now env)\<rparr> else x)
                  (configurations (store w3))\<rparr>\<rparr>))"
proof -
  have l: "logSyncOperation (log_fault env) (now env) (id_cfg c) Availability
                 (if success r then Success else Failed) (message r)
                 (length (select_rooms (curdate env) (rooms (store w)) (bookings (store w)))) w2
           = (Inr (), w3)"
    unfolding assms(3) by (rule logSyncOperation_eq)
  show ?thesis
    using assms(1,2) l
    by (simp add: performOTASync_def select_rooms_exec update_exec split: option.splits)
qed

lemma performOTASync_returns: "\<exists>r. fst (performOTASync env c w) = Inr r"
proof (cases "rooms_fault env")
  case (Some e)
  then show ?thesis by (simp add: performOTASync_rooms_fault catch_block_eq)
next
  case None
  let ?rs = "select_rooms (curdate env) (rooms (store w)) (bookings (store w))"
  show ?thesis
  proof (cases "ari_request env c ?rs")
    case None
    with \<open>rooms_fault env = None\<close> show ?thesis
      by (simp add: performOTASync_unsupported catch_block_eq)
  next
    case (Some req)
    from dispatch_supported[OF Some] obtain r where
      d: "dispatch env c ?rs (w\<lparr>sql_log := sql_log w @ [Select_rooms]\<rparr>)
            = (Inr r, w\<lparr>sql_log := sql_log w @ [Select_rooms]\<rparr>\<lparr>http_log := http_log (w\<lparr>sql_log := sql_log w @ [Select_rooms]\<rparr>) @ [req]\<rparr>)"
      by blast
    show ?thesis
      by (simp add: performOTASync_supported[OF \<open>rooms_fault env = None\<close> d refl] catch_block_eq
          split: option.splits)
  qed
qed


lemma performOTASync_cases [consumes 0, case_names rooms_failed unsupported update_failed finished]:
  obtains
    (rooms_failed) e where
      "rooms_fault env = Some e"
      "performOTASync env c w =
         (Inr \<lparr>success = False, message = e, data = None\<rparr>,
          snd (logSyncOperation (catch_log_fault env) (now env) (id_cfg c) Availability Failed e 0
                 (w\<lparr>sql_log := sql_log w @ [Select_rooms]\<rparr>)))"
  | (unsupported)
      "rooms_fault env = None"
      "ari_request env c (select_rooms (curdate env) (rooms (store w)) (bookings (store w))) = None"
      "performOTASync env c w =
         (Inr \<lparr>success = False, message = ''Unsupported OTA: '' @ ota_name c, data = None\<rparr>,
          snd (logSyncOperation (catch_log_fault env) (now env) (id_cfg c) Availability Failed
                 (''Unsupported OTA: '' @ ota_name c) 0
                 (w\<lparr>sql_log := sql_log w @ [Select_rooms]\<rparr>)))"
  | (update_failed) req and r :: outcome and e w3 where
      "rooms_fault env = None"
      "ari_request env c (select_rooms (curdate env) (rooms (store w)) (bookings (store w))) = Some req"
      "success r = (\<not> adapter_fails env c (select_rooms (curdate env) (rooms (store w)) (bookings (store w))))"
      "update_fault env = Some e"
      "w3 = snd (logSyncOperation (log_fault env) (now env) (id_cfg c) Availability
                 (if success r then Success else Failed) (message r)
                 (length (select_rooms (curdate env) (rooms (store w)) (bookings (store w))))
                 (w\<lparr>sql_log := sql_log w @ [Select_rooms], http_log := http_log w @ [req]\<rparr>))"
      "performOTASync env c w =
         (Inr \<lparr>success = False, message = e, data = None\<rparr>,
          snd (logSyncOperation (catch_log_fault env) (now env) (id_cfg c) Availability Failed e 0
                 (w3\<lparr>sql_log := sql_log w3 @ [Update_last_sync]\<rparr>)))"
  | (finished) req and r :: outcome and w3 where
      "rooms_fault env = None"
      "ari_request env c (select_rooms (curdate env) (rooms (store w)) (bookings (store w))) = Some req"
      "success r = (\<not> adapter_fails env c (select_rooms (curdate env) (rooms (store w)) (bookings (store w))))"
      "update_fault env = None"
      "w3 = snd (logSyncOperation (log_fault env) (now env) (id_cfg c) Availability
                 (if success r then Success else Failed) (message r)
                 (length (select_rooms (curdate env) (rooms (store w)) (bookings (store w))))
                 (w\<lparr>sql_log := sql_log w @ [Select_rooms], http_log := http_log w @ [req]\<rparr>))"
      "performOTASync env c w =
         (Inr r, w3\<lparr>sql_log := sql_log w3 @ [Update_last_sync],
            store := (store w3)\<lparr>configurations :=
              map (\<lambda>x. if id_cfg x = id_cfg c then x\<lparr>last_sync_at := Some (now env)\<rparr> else x)
                  (configurations (store w3))\<rparr>\<rparr>)"
proof (cases "rooms_fault env")
  case (Some e)
  then show ?thesis
    using rooms_failed by (simp add: performOTASync_rooms_fault catch_block_eq)
next
  case None
  let ?rs = "select_rooms (curdate env) (rooms (store w)) (bookings (store w))"
  let ?w1 = "w\<lparr>sql_log := sql_log w @ [Select_rooms]\<rparr>"
  show ?thesis
  proof (cases "ari_request env c ?rs")
    case a: None
    show ?thesis
      using unsupported None a by (simp add: performOTASync_unsupported catch_block_eq)
  next
    case (Some req)
    from dispatch_supported[OF Some, of ?w1] obtain r where
      d: "dispatch env c ?rs ?w1 = (Inr r, ?w1\<lparr>http_log := http_log ?w1 @ [req]\<rparr>)"
      and s: "success r = (\<not> adapter_fails env c ?rs)"
      by blast
    note p = performOTASync_supported[OF None d refl]
    show ?thesis
    proof (cases "update_fault env")
      case u: None
      show ?thesis
        using finished[OF None Some s u refl] p u by simp
    next
      case u: (Some e)
      show ?thesis
        using update_failed[OF None Some s u refl] p u by (simp add: catch_block_eq)
    qed
  qed
qed

lemma performOTASync_http_log:
  "http_log (snd (performOTASync env c w)) =
     http_log w @
       (case rooms_fault env of
          Some e \<Rightarrow> []
        | None \<Rightarrow>
            (case ari_request env c (select_rooms (curdate env) (rooms (store w)) (bookings (store w))) of
               None \<Rightarrow> []
             | Some req \<Rightarrow> [req]))"
  by (cases rule: performOTASync_cases[of env c w]) (auto simp: logSyncOperation_world)

lemma performOTASync_rooms:
  "rooms (store (snd (performOTASync env c w))) = rooms (store w)
   \<and> bookings (store (snd (performOTASync env c w))) = bookings (store w)"
  by (cases rule: performOTASync_cases[of env c w]) (auto simp: logSyncOperation_world)

lemma performOTASync_select_rooms:
  "count_list (sql_log (snd (performOTASync env c w))) Select_rooms
     = Suc (count_list (sql_log w) Select_rooms)"
  by (cases rule: performOTASync_cases[of env c w]) (auto simp: logSyncOperation_world)

lemma performOTASync_success:
  "\<exists>r. fst (performOTASync env c w) = Inr r
     \<and> success r =
         (rooms_fault env = None
          \<and> \<not> adapter_fails env c (select_rooms (curdate env) (rooms (store w)) (bookings (store w)))
          \<and> update_fault env = None)"
  by (cases rule: performOTASync_cases[of env c w]) (auto simp: adapter_fails_def)

lemma ari_request_None:
  "(ari_request env c rs = None) =
      (toLowerCase (ota_name c) \<notin> {''booking.com'', ''booking_com'', ''agoda'', ''airbnb''})"
  by (simp add: ari_request_def Let_def)


lemma adapters_log_faults:
  "syncBookingComARI (env\<lparr>log_fault := lf, catch_log_fault := clf\<rparr>) c rs w
     = syncBookingComARI env c rs w"
  "syncAgodaARI (env\<lparr>log_fault := lf, catch_log_fault := clf\<rparr>) c rs w = syncAgodaARI env c rs w"
  "syncAirbnbARI (env\<lparr>log_fault := lf, catch_log_fault := clf\<rparr>) c rs w = syncAirbnbARI env c rs w"
  by (simp_all add: syncBookingComARI_def syncAgodaARI_def syncAirbnbARI_def
      agoda_request_def airbnb_request_def)

lemma dispatch_log_faults:
  "dispatch (env\<lparr>log_fault := lf, catch_log_fault := clf\<rparr>) c rs w = dispatch env c rs w"
  unfolding dispatch_def adapters_log_faults ..

lemma performOTASync_fst:
  "fst (performOTASync env c w) =
     (case rooms_fault env of
        Some e \<Rightarrow> Inr \<lparr>success = False, message = e, data = None\<rparr>
      | None \<Rightarrow>
          (case fst (dispatch env c (select_rooms (curdate env) (rooms (store w)) (bookings (store w)))
                       (w\<lparr>sql_log := sql_log w @ [Select_rooms]\<rparr>)) of
             Inl e \<Rightarrow> Inr \<lparr>success = False, message = e, data = None\<rparr>
           | Inr r \<Rightarrow>
               (case update_fault env of
                  Some e \<Rightarrow> Inr \<lparr>success = False, message = e, data = None\<rparr>
                | None \<Rightarrow> Inr r)))"
proof (cases "rooms_fault env")
  case (Some e)
  then show ?thesis by (simp add: performOTASync_rooms_fault catch_block_eq)
next
  case None
  let ?rs = "select_rooms (curdate env) (rooms (store w)) (bookings (store w))"
  let ?w1 = "w\<lparr>sql_log := sql_log w @ [Select_rooms]\<rparr>"
  obtain x w2 where d: "dispatch env c ?rs ?w1 = (x, w2)"
    by (cases "dispatch env c ?rs ?w1")
  show ?thesis
  proof (cases x)
    case (Inl e)
    with d None show ?thesis
      by (simp add: performOTASync_def select_rooms_exec catch_block_eq)
  next
    case (Inr r)
    with d have d': "dispatch env c ?rs ?w1 = (Inr r, w2)" by simp
    show ?thesis
      unfolding performOTASync_supported[OF None d' refl]
      using None d' by (simp add: catch_block_eq split: option.splits)
  qed
qed

lemma performOTASync_fst_log_faults:
  "fst (performOTASync (env\<lparr>log_fault := lf, catch_log_fault := clf\<rparr>) c w)
     = fst (performOTASync env c w)"
  unfolding performOTASync_fst dispatch_log_faults by (simp split: option.splits sum.splits)

lemma performOTASync_sync_logs:
  assumes "list_ex (\<lambda>x. id_cfg x = id_cfg c) (configurations (store w))"
    and "update_fault env = None" and "log_fault env = None" and "catch_log_fault env = None"
  shows "\<exists>r entry. fst (performOTASync env c w) = Inr r
      \<and> sync_logs (store (snd (performOTASync env c w))) = sync_logs (store w) @ [entry]
      \<and> ota_configuration_id entry = Some (id_cfg c)
      \<and> status entry = (if success r then Success else Failed)
      \<and> log_message entry = message r"
proof (cases rule: performOTASync_cases[of env c w])
  case (rooms_failed e)
  show ?thesis
    unfolding rooms_failed(2) using assms by (simp add: logSyncOperation_world)
next
  case unsupported
  show ?thesis
    unfolding unsupported(3) using assms by (simp add: logSyncOperation_world)
next
  case (update_failed req r e w3)
  with assms show ?thesis by simp
next
  case (finished req r w3)
  have "sync_logs (store w3) = sync_logs (store w) @
      [\<lparr>id_log = next_log_id (store w), ota_configuration_id = Some (id_cfg c),
        sync_type = Availability, status = (if success r then Success else Failed),
        log_message = message r, sync_started_at = now env, sync_completed_at = Some (now env),
        records_processed = length (select_rooms (curdate env) (rooms (store w)) (bookings (store w)))\<rparr>]"
    unfolding finished(5) using assms by (simp add: logSyncOperation_world)
  then show ?thesis
    unfolding finished(6) by simp
qed

lemmas example_defs = always_ok_def always_refused_def env_ok_def config_booking_def
  config_agoda_def config_expedia_def example_world_def room_a_def room_b_def booking_a_def
  booking_b_def

lemmas sync_defs = performOTASync_def db_execute_def select_rooms_stmt_def select_rooms_def
  join_on_def dispatch_def toLowerCase_def lower_char_def syncBookingComARI_def syncAgodaARI_def
  syncAirbnbARI_def axios_def logSyncOperation_def catch_block_def insert_sync_log_def
  update_last_sync_def Let_def booking_com_request_def agoda_request_def airbnb_request_def

section \<open>Unsupported partners\<close>

text \<open>
  Claim C4, as stated, fails: the switch compares the lower-cased name and also accepts
  \<open>booking.com\<close>. The configuration named \<open>Booking.com\<close> is not one of
  \<open>booking_com\<close>, \<open>agoda\<close>, \<open>airbnb\<close>, and its sync succeeds with one request.
\<close>

theorem unsupported_ota_counterexample:
  "ota_name config_booking \<notin> {''booking_com'', ''agoda'', ''airbnb''}
   \<and> fst (performOTASync env_ok config_booking example_world)
       = Inr \<lparr>success = True, message = ''Booking.com ARI sync completed successfully'',
              data = Some ''OK''\<rparr>
   \<and> length (http_log (snd (performOTASync env_ok config_booking example_world))) = 1"
  by (simp add: example_defs sync_defs)

text \<open>
  Claim C4, amended. For every configuration whose lower-cased name is none of
  \<open>booking.com\<close>, \<open>booking_com\<close>, \<open>agoda\<close>, \<open>airbnb\<close>, performOTASync returns a
  failed outcome and sends no request; the message is \<open>Unsupported OTA: <name>\<close> when
  the room query succeeded, and the message of the store's error otherwise.
\<close>

theorem unsupported_ota_no_request:
  assumes "toLowerCase (ota_name c) \<notin> {''booking.com'', ''booking_com'', ''agoda'', ''airbnb''}"
  shows "fst (performOTASync env c w)
           = Inr \<lparr>success = False,
                  message = (case rooms_fault env of
                               None \<Rightarrow> ''Unsupported OTA: '' @ ota_name c
                             | Some e \<Rightarrow> e),
                  data = None\<rparr>
         \<and> http_log (snd (performOTASync env c w)) = http_log w"
proof -
  have "ari_request env c rs = None" for rs
    using assms unfolding ari_request_None .
  then show ?thesis
    by (cases rule: performOTASync_cases[of env c w]) (auto simp: logSyncOperation_world)
qed

theorem unsupported_ota_no_request_witness:
  "toLowerCase (ota_name config_expedia) \<notin> {''booking.com'', ''booking_com'', ''agoda'', ''airbnb''}
   \<and> fst (performOTASync env_ok config_expedia example_world)
       = Inr \<lparr>success = False, message = ''Unsupported OTA: expedia'', data = None\<rparr>
   \<and> http_log (snd (performOTASync env_ok config_expedia example_world)) = []"
proof -
  have h: "toLowerCase (ota_name config_expedia)
             \<notin> {''booking.com'', ''booking_com'', ''agoda'', ''airbnb''}"
    by (simp add: config_expedia_def toLowerCase_def lower_char_def)
  from unsupported_ota_no_request[OF h, of env_ok example_world] h show ?thesis
    by (simp add: env_ok_def config_expedia_def example_world_def)
qed

section \<open>The update of last_sync_at\<close>

text \<open>
  Claim C2, as stated, fails for the unsupported-partner failure: the default case of
  the switch throws, and the catch block does not update \<open>last_sync_at\<close>. Syncing the
  active configuration 3 (\<open>expedia\<close>) leaves every \<open>last_sync_at\<close> NULL.
\<close>

theorem last_sync_at_counterexample:
  "is_active config_expedia = Some True
   \<and> fst (post_sync None env_ok 3 example_world)
       = Sync_response ''Sync failed'' False ''Unsupported OTA: expedia'' ''expedia''
   \<and> map last_sync_at (configurations (store (snd (post_sync None env_ok 3 example_world))))
       = [None, None, None]"
  by (simp add: example_defs sync_defs post_sync_def select_active_config_by_id_def)

text \<open>
  Claim C2, amended. performOTASync sets \<open>last_sync_at\<close> of the configuration to the
  current time exactly when an adapter is dispatched (the lower-cased name is
  \<open>booking.com\<close>, \<open>booking_com\<close>, \<open>agoda\<close> or \<open>airbnb\<close>) and the room query and the
  update itself do not fail in the store, whether the adapter succeeds or fails;
  otherwise it leaves the configurations as they are.
\<close>

theorem last_sync_at_updated:
  "configurations (store (snd (performOTASync env c w))) =
     (if toLowerCase (ota_name c) \<in> {''booking.com'', ''booking_com'', ''agoda'', ''airbnb''}
         \<and> rooms_fault env = None \<and> update_fault env = None
      then map (\<lambda>x. if id_cfg x = id_cfg c then x\<lparr>last_sync_at := Some (now env)\<rparr> else x)
               (configurations (store w))
      else configurations (store w))"
proof (cases rule: performOTASync_cases[of env c w])
  case (rooms_failed e)
  then show ?thesis by (simp add: logSyncOperation_world)
next
  case unsupported
  from unsupported(2)
  have "toLowerCase (ota_name c) \<notin> {''booking.com'', ''booking_com'', ''agoda'', ''airbnb''}"
    unfolding ari_request_None .
  with unsupported(3) show ?thesis by (simp add: logSyncOperation_world)
next
  case (update_failed req r e w3)
  then show ?thesis by (simp add: logSyncOperation_world)
next
  case (finished req r w3)
  from finished(2)
  have "toLowerCase (ota_name c) \<in> {''booking.com'', ''booking_com'', ''agoda'', ''airbnb''}"
    using ari_request_None[of env c "select_rooms (curdate env) (rooms (store w)) (bookings (store w))"]
    by (simp del: insert_iff)
  then have s: "(toLowerCase (ota_name c) \<in> {''booking.com'', ''booking_com'', ''agoda'', ''airbnb''}
         \<and> rooms_fault env = None \<and> update_fault env = None) = True"
    using finished(1,4) by blast
  have c3: "configurations (store w3) = configurations (store w)"
    unfolding finished(5) by (simp add: logSyncOperation_world)
  show ?thesis
    unfolding s finished(6) by (simp add: c3)
qed

text \<open>The adapter of Agoda fails (connection refused) and \<open>last_sync_at\<close> is set all the same.\<close>

theorem last_sync_at_updated_witness:
  "fst (performOTASync (env_ok\<lparr>http := always_refused\<rparr>) config_agoda example_world)
     = Inr \<lparr>success = False, message = ''Agoda sync failed: connect ECONNREFUSED'', data = None\<rparr>
   \<and> map last_sync_at (configurations (store (snd
        (performOTASync (env_ok\<lparr>http := always_refused\<rparr>) config_agoda example_world))))
     = [None, Some 864000000, None]"
proof -
  have a: "fst (performOTASync (env_ok\<lparr>http := always_refused\<rparr>) config_agoda example_world)
     = Inr \<lparr>success = False, message = ''Agoda sync failed: connect ECONNREFUSED'', data = None\<rparr>"
    by (simp add: example_defs sync_defs)
  have n: "toLowerCase (ota_name config_agoda) = ''agoda''"
    by (simp add: config_agoda_def toLowerCase_def lower_char_def)
  have b: "map last_sync_at (configurations (store (snd
        (performOTASync (env_ok\<lparr>http := always_refused\<rparr>) config_agoda example_world))))
     = [None, Some 864000000, None]"
    unfolding last_sync_at_updated n
    by (simp add: env_ok_def example_world_def config_booking_def config_agoda_def
        config_expedia_def)
  from a b show ?thesis by blast
qed

section \<open>The log entry of a sync\<close>

text \<open>
  Claim C6, as stated, fails: when the update of \<open>last_sync_at\<close> fails in the store
  after the log entry was written, the catch block writes a second entry, and the
  outcome returned is the failure of the update.
\<close>

theorem sync_log_entry_counterexample:
  "sync_logs (store example_world) = []
   \<and> map status (sync_logs (store (snd
        (performOTASync (env_ok\<lparr>update_fault := Some ''Deadlock found''\<rparr>) config_agoda
           example_world))))
     = [Success, Failed]
   \<and> fst (performOTASync (env_ok\<lparr>update_fault := Some ''Deadlock found''\<rparr>) config_agoda
           example_world)
     = Inr \<lparr>success = False, message = ''Deadlock found'', data = None\<rparr>"
  by (simp add: example_defs sync_defs)

text \<open>
  Claim C6, amended. performOTASync always returns an outcome (its promise never
  rejects), and a failure of a log write does not change the outcome: with any faults
  \<open>lf\<close> and \<open>clf\<close> of the two log writes the outcome is the same. When the
  configuration is stored, the update of \<open>last_sync_at\<close> does not fail and the log writes
  succeed, the call appends exactly one entry to the log, which references the
  configuration and records the outcome, failed or not.
\<close>

theorem sync_log_entry:
  "\<exists>r. fst (performOTASync env c w) = Inr r
      \<and> fst (performOTASync (env\<lparr>log_fault := lf, catch_log_fault := clf\<rparr>) c w) = Inr r
      \<and> (list_ex (\<lambda>x. id_cfg x = id_cfg c) (configurations (store w))
           \<and> update_fault env = None \<and> log_fault env = None \<and> catch_log_fault env = None \<longrightarrow>
         (\<exists>entry. sync_logs (store (snd (performOTASync env c w))) = sync_logs (store w) @ [entry]
            \<and> ota_configuration_id entry = Some (id_cfg c)
            \<and> status entry = (if success r then Success else Failed)
            \<and> log_message entry = message r))"
proof -
  obtain r where r: "fst (performOTASync env c w) = Inr r"
    using performOTASync_returns by blast
  have i: "fst (performOTASync (env\<lparr>log_fault := lf, catch_log_fault := clf\<rparr>) c w) = Inr r"
    unfolding performOTASync_fst_log_faults by (rule r)
  have e: "list_ex (\<lambda>x. id_cfg x = id_cfg c) (configurations (store w))
           \<and> update_fault env = None \<and> log_fault env = None \<and> catch_log_fault env = None \<longrightarrow>
         (\<exists>entry. sync_logs (store (snd (performOTASync env c w))) = sync_logs (store w) @ [entry]
            \<and> ota_configuration_id entry = Some (id_cfg c)
            \<and> status entry = (if success r then Success else Failed)
            \<and> log_message entry = message r)"
  proof
    assume a: "list_ex (\<lambda>x. id_cfg x = id_cfg c) (configurations (store w))
           \<and> update_fault env = None \<and> log_fault env = None \<and> catch_log_fault env = None"
    then obtain r' entry where
      "fst (performOTASync env c w) = Inr r'"
      "sync_logs (store (snd (performOTASync env c w))) = sync_logs (store w) @ [entry]"
      "ota_configuration_id entry = Some (id_cfg c)"
      "status entry = (if success r' then Success else Failed)"
      "log_message entry = message r'"
      using performOTASync_sync_logs[of c w env] by blast
    with r show "\<exists>entry. sync_logs (store (snd (performOTASync env c w))) = sync_logs (store w) @ [entry]
            \<and> ota_configuration_id entry = Some (id_cfg c)
            \<and> status entry = (if success r then Success else Failed)
            \<and> log_message entry = message r"
      by auto
  qed
  show ?thesis
    by (rule exI[of _ r]) (intro conjI r i e)
qed

theorem sync_log_entry_witness:
  "list_ex (\<lambda>x. id_cfg x = id_cfg config_agoda) (configurations (store example_world))
   \<and> fst (performOTASync (env_ok\<lparr>log_fault := Some ''Lock wait timeout exceeded'',
                                 catch_log_fault := Some ''Lock wait timeout exceeded''\<rparr>)
             config_agoda example_world)
     = fst (performOTASync env_ok config_agoda example_world)
   \<and> length (sync_logs (store (snd (performOTASync env_ok config_agoda example_world)))) = 1"
proof -
  have h: "list_ex (\<lambda>x. id_cfg x = id_cfg config_agoda) (configurations (store example_world))
           \<and> update_fault env_ok = None \<and> log_fault env_ok = None \<and> catch_log_fault env_ok = None"
    by (simp add: example_world_def config_agoda_def config_booking_def env_ok_def)
  have e: "sync_logs (store example_world) = []"
    by (simp add: example_world_def)
  from sync_log_entry[of env_ok config_agoda example_world
      "Some ''Lock wait timeout exceeded''" "Some ''Lock wait timeout exceeded''"] h e
  show ?thesis by auto
qed

section \<open>How POST /sync-all runs\<close>

lemma performOTASync_store_frame:
  "rooms (store (snd (performOTASync env c w))) = rooms (store w)"
  "bookings (store (snd (performOTASync env c w))) = bookings (store w)"
  using performOTASync_rooms[of env c w] by simp_all

lemma sync_tasks_snd:
  "snd (sync_tasks envs (c # cs) w)
     = snd (sync_tasks envs cs (snd (performOTASync (envs (id_cfg c)) c w)))"
  by (simp split: prod.splits)

lemma sync_tasks_fst:
  "fst (sync_tasks envs (c # cs) w)
     = (case fst (performOTASync (envs (id_cfg c)) c w) of
          Inl error \<Rightarrow> Inl error
        | Inr result \<Rightarrow>
            Inr \<lparr>item_ota_name = ota_name c, item_success = success result,
                 item_message = message result\<rparr>)
       # fst (sync_tasks envs cs (snd (performOTASync (envs (id_cfg c)) c w)))"
  by (simp split: prod.splits)

lemma sync_tasks_frame:
  "rooms (store (snd (sync_tasks envs configs w))) = rooms (store w)
   \<and> bookings (store (snd (sync_tasks envs configs w))) = bookings (store w)"
proof (induction configs arbitrary: w)
  case Nil
  show ?case by simp
next
  case (Cons c cs)
  show ?case
    using Cons.IH[of "snd (performOTASync (envs (id_cfg c)) c w)"]
    unfolding sync_tasks_snd performOTASync_store_frame .
qed

lemma sync_tasks_http_log:
  "http_log (snd (sync_tasks envs configs w)) =
     http_log w @ concat (map (\<lambda>c. sync_requests (envs (id_cfg c)) c
        (select_rooms (curdate (envs (id_cfg c))) (rooms (store w)) (bookings (store w)))) configs)"
proof (induction configs arbitrary: w)
  case Nil
  show ?case by simp
next
  case (Cons c cs)
  show ?case
    unfolding sync_tasks_snd Cons.IH performOTASync_store_frame performOTASync_http_log
    by (simp add: sync_requests_def)
qed

lemma sync_tasks_select_rooms:
  "count_list (sql_log (snd (sync_tasks envs configs w))) Select_rooms
     = count_list (sql_log w) Select_rooms + length configs"
proof (induction configs arbitrary: w)
  case Nil
  show ?case by simp
next
  case (Cons c cs)
  show ?case
    unfolding sync_tasks_snd Cons.IH performOTASync_select_rooms by simp
qed

lemma sync_tasks_results:
  "\<exists>items. promise_all (fst (sync_tasks envs configs w)) = Inr items
     \<and> map item_ota_name items = map ota_name configs
     \<and> map item_success items =
         map (\<lambda>c. rooms_fault (envs (id_cfg c)) = None
                   \<and> \<not> adapter_fails (envs (id_cfg c)) c
                        (select_rooms (curdate (envs (id_cfg c))) (rooms (store w)) (bookings (store w)))
                   \<and> update_fault (envs (id_cfg c)) = None) configs"
proof (induction configs arbitrary: w)
  case Nil
  show ?case by simp
next
  case (Cons c cs)
  let ?w1 = "snd (performOTASync (envs (id_cfg c)) c w)"
  from performOTASync_success[of "envs (id_cfg c)" c w] obtain r where
    r: "fst (performOTASync (envs (id_cfg c)) c w) = Inr r"
    and s: "success r = (rooms_fault (envs (id_cfg c)) = None
          \<and> \<not> adapter_fails (envs (id_cfg c)) c
               (select_rooms (curdate (envs (id_cfg c))) (rooms (store w)) (bookings (store w)))
          \<and> update_fault (envs (id_cfg c)) = None)"
    by blast
  from Cons.IH[of ?w1] obtain items where
    i: "promise_all (fst (sync_tasks envs cs ?w1)) = Inr items"
    and n: "map item_ota_name items = map ota_name cs"
    and k: "map item_success items =
         map (\<lambda>c. rooms_fault (envs (id_cfg c)) = None
                   \<and> \<not> adapter_fails (envs (id_cfg c)) c
                        (select_rooms (curdate (envs (id_cfg c))) (rooms (store w)) (bookings (store w)))
                   \<and> update_fault (envs (id_cfg c)) = None) cs"
    unfolding performOTASync_store_frame by blast
  have "promise_all (fst (sync_tasks envs (c # cs) w))
      = Inr (\<lparr>item_ota_name = ota_name c, item_success = success r, item_message = message r\<rparr> # items)"
    unfolding sync_tasks_fst r by (simp add: i)
  then show ?case
    using n k s by simp
qed

lemma select_active_configs_exec:
  "db_execute Select_active_configs None select_active_configs w
     = (Inr (filter (\<lambda>c. is_active c = Some True) (configurations (store w))),
        w\<lparr>sql_log := sql_log w @ [Select_active_configs]\<rparr>)"
  by (simp add: db_execute_def select_active_configs_def Let_def)

lemma post_sync_all_run:
  assumes "filter (\<lambda>c. is_active c = Some True) (configurations (store w)) = configs"
    and "configs \<noteq> []"
  shows "\<exists>items.
     promise_all (fst (sync_tasks envs configs (w\<lparr>sql_log := sql_log w @ [Select_active_configs]\<rparr>)))
       = Inr items
     \<and> post_sync_all None envs w =
       (Sync_all_response
          \<lparr>total_otas = length configs,
           successful_syncs = length (filter (\<lambda>r. item_success r) items),
           failed_syncs = length (filter (\<lambda>r. \<not> item_success r) items),
           results = items\<rparr>,
        snd (sync_tasks envs configs (w\<lparr>sql_log := sql_log w @ [Select_active_configs]\<rparr>)))"
proof -
  let ?w1 = "w\<lparr>sql_log := sql_log w @ [Select_active_configs]\<rparr>"
  obtain items where i: "promise_all (fst (sync_tasks envs configs ?w1)) = Inr items"
    using sync_tasks_results[of envs configs ?w1] by blast
  obtain ps w2 where t: "sync_tasks envs configs ?w1 = (ps, w2)"
    by (cases "sync_tasks envs configs ?w1")
  with i have i': "promise_all ps = Inr items" by simp
  have "post_sync_all None envs w =
       (Sync_all_response
          \<lparr>total_otas = length configs,
           successful_syncs = length (filter (\<lambda>r. item_success r) items),
           failed_syncs = length (filter (\<lambda>r. \<not> item_success r) items),
           results = items\<rparr>, w2)"
    unfolding post_sync_all_def select_active_configs_exec
    using assms t i' by simp
  with i t show ?thesis by simp
qed

lemma post_sync_all_http_log:
  assumes "filter (\<lambda>c. is_active c = Some True) (configurations (store w)) = configs"
    and "configs \<noteq> []"
  shows "http_log (snd (post_sync_all None envs w)) =
     http_log w @ concat (map (\<lambda>c. sync_requests (envs (id_cfg c)) c
        (select_rooms (curdate (envs (id_cfg c))) (rooms (store w)) (bookings (store w)))) configs)"
proof -
  from post_sync_all_run[OF assms, of envs] obtain items where
    "post_sync_all None envs w =
       (Sync_all_response
          \<lparr>total_otas = length configs,
           successful_syncs = length (filter (\<lambda>r. item_success r) items),
           failed_syncs = length (filter (\<lambda>r. \<not> item_success r) items),
           results = items\<rparr>,
        snd (sync_tasks envs configs (w\<lparr>sql_log := sql_log w @ [Select_active_configs]\<rparr>)))"
    by blast
  then show ?thesis
    by (simp add: sync_tasks_http_log)
qed

lemma post_sync_all_select_rooms:
  assumes "filter (\<lambda>c. is_active c = Some True) (configurations (store w)) = configs"
    and "configs \<noteq> []"
  shows "count_list (sql_log (snd (post_sync_all None envs w))) Select_rooms
     = count_list (sql_log w) Select_rooms + length configs"
proof -
  from post_sync_all_run[OF assms, of envs] obtain items where
    "post_sync_all None envs w =
       (Sync_all_response
          \<lparr>total_otas = length configs,
           successful_syncs = length (filter (\<lambda>r. item_success r) items),
           failed_syncs = length (filter (\<lambda>r. \<not> item_success r) items),
           results = items\<rparr>,
        snd (sync_tasks envs configs (w\<lparr>sql_log := sql_log w @ [Select_active_configs]\<rparr>)))"
    by blast
  then show ?thesis
    by (simp add: sync_tasks_select_rooms)
qed

lemma count_by_map:
  "map f xs = map g ys \<Longrightarrow> length (filter (\<lambda>x. P (f x)) xs) = length (filter (\<lambda>y. P (g y)) ys)"
proof -
  assume a: "map f xs = map g ys"
  have "length (filter (\<lambda>x. P (f x)) xs) = length (filter P (map f xs))"
    by (simp add: filter_map comp_def)
  also have "\<dots> = length (filter P (map g ys))" using a by simp
  also have "\<dots> = length (filter (\<lambda>y. P (g y)) ys)"
    by (simp add: filter_map comp_def)
  finally show ?thesis .
qed

lemma post_sync_all_items:
  assumes "filter (\<lambda>c. is_active c = Some True) (configurations (store w)) = configs"
    and "configs \<noteq> []"
  shows "\<exists>body w'. post_sync_all None envs w = (Sync_all_response body, w')
      \<and> total_otas body = length configs
      \<and> map item_ota_name (results body) = map ota_name configs
      \<and> map item_success (results body)
          = map (\<lambda>c. task_succeeds (envs (id_cfg c)) c (rooms (store w)) (bookings (store w)))
              configs
      \<and> successful_syncs body = length (filter (\<lambda>r. item_success r) (results body))
      \<and> failed_syncs body = length (filter (\<lambda>r. \<not> item_success r) (results body))"
proof -
  let ?w1 = "w\<lparr>sql_log := sql_log w @ [Select_active_configs]\<rparr>"
  from post_sync_all_run[OF assms, of envs] obtain items where
    i: "promise_all (fst (sync_tasks envs configs ?w1)) = Inr items"
    and p: "post_sync_all None envs w =
       (Sync_all_response
          \<lparr>total_otas = length configs,
           successful_syncs = length (filter (\<lambda>r. item_success r) items),
           failed_syncs = length (filter (\<lambda>r. \<not> item_success r) items),
           results = items\<rparr>,
        snd (sync_tasks envs configs ?w1))"
    by blast
  from sync_tasks_results[of envs configs ?w1] i have
    n: "map item_ota_name items = map ota_name configs"
    and s: "map item_success items
          = map (\<lambda>c. task_succeeds (envs (id_cfg c)) c (rooms (store w)) (bookings (store w)))
              configs"
    by (auto simp: task_succeeds_def)
  show ?thesis
    unfolding p using n s by simp
qed

lemma example_active_configs:
  "filter (\<lambda>c. is_active c = Some True) (configurations (store example_world))
     = [config_booking, config_agoda, config_expedia]"
  by (simp add: example_world_def config_booking_def config_agoda_def config_expedia_def)

section \<open>The snapshots of POST /sync-all\<close>

text \<open>
  Claim C1, as stated, fails: no snapshot is computed once and shared. Every task runs
  the room query itself, so a call over the three active configurations issues three
  room queries; and when the query of the second task runs after midnight, Booking.com
  is sent room 8 as unavailable and Agoda is sent room 8 as available.
\<close>

theorem sync_all_snapshot_counterexample:
  "count_list (sql_log (snd (post_sync_all None midnight_envs example_world))) Select_rooms = 3
   \<and> map body (http_log (snd (post_sync_all None midnight_envs example_world)))
     = [Ari_update (Some ''user'') (Some ''secret'') (Some ''H1'')
          [Booking_com_room 7 ''Deluxe'' 100 1 1 (Restrictions 1 30 0 0),
           Booking_com_room 8 ''Suite'' 250 0 1 (Restrictions 1 30 0 0)],
        Agoda_ari (Some ''H1'') 864000000
          [Agoda_room 7 ''Deluxe'' [Agoda_rate ''Standard'' 100 11 1 1],
           Agoda_room 8 ''Suite'' [Agoda_rate ''Standard'' 250 11 1 1]]]"
proof -
  have n: "[config_booking, config_agoda, config_expedia] \<noteq> []" by simp
  have a: "count_list (sql_log (snd (post_sync_all None midnight_envs example_world))) Select_rooms = 3"
    unfolding post_sync_all_select_rooms[OF example_active_configs n]
    by (simp add: example_world_def)
  have b: "map body (http_log (snd (post_sync_all None midnight_envs example_world)))
     = [Ari_update (Some ''user'') (Some ''secret'') (Some ''H1'')
          [Booking_com_room 7 ''Deluxe'' 100 1 1 (Restrictions 1 30 0 0),
           Booking_com_room 8 ''Suite'' 250 0 1 (Restrictions 1 30 0 0)],
        Agoda_ari (Some ''H1'') 864000000
          [Agoda_room 7 ''Deluxe'' [Agoda_rate ''Standard'' 100 11 1 1],
           Agoda_room 8 ''Suite'' [Agoda_rate ''Standard'' 250 11 1 1]]]"
    unfolding post_sync_all_http_log[OF example_active_configs n]
    by (simp add: midnight_envs_def sync_requests_def ari_request_def example_defs sync_defs)
  from a b show ?thesis by blast
qed

text \<open>
  Claim C1, amended. In every POST /sync-all with at least one active configuration,
  each task runs its own room query (one per active configuration, none shared), and
  the requests sent are those of the adapters on the rows that query returns for the
  rooms and bookings stored when the call started, at the date the task's query reads.
  When all tasks read the same date \<open>d\<close>, every adapter is given the same rows.
\<close>

theorem sync_all_snapshot:
  assumes "filter (\<lambda>c. is_active c = Some True) (configurations (store w)) = configs"
    and "configs \<noteq> []"
  shows "count_list (sql_log (snd (post_sync_all None envs w))) Select_rooms
           = count_list (sql_log w) Select_rooms + length configs
         \<and> http_log (snd (post_sync_all None envs w)) =
             http_log w @ concat (map (\<lambda>c. sync_requests (envs (id_cfg c)) c
               (select_rooms (curdate (envs (id_cfg c))) (rooms (store w)) (bookings (store w))))
               configs)
         \<and> ((\<forall>c \<in> set configs. curdate (envs (id_cfg c)) = d) \<longrightarrow>
             http_log (snd (post_sync_all None envs w)) =
               http_log w @ concat (map (\<lambda>c. sync_requests (envs (id_cfg c)) c
                 (select_rooms d (rooms (store w)) (bookings (store w)))) configs))"
proof (intro conjI impI)
  show "count_list (sql_log (snd (post_sync_all None envs w))) Select_rooms
           = count_list (sql_log w) Select_rooms + length configs"
    by (rule post_sync_all_select_rooms[OF assms])
next
  show "http_log (snd (post_sync_all None envs w)) =
             http_log w @ concat (map (\<lambda>c. sync_requests (envs (id_cfg c)) c
               (select_rooms (curdate (envs (id_cfg c))) (rooms (store w)) (bookings (store w))))
               configs)"
    by (rule post_sync_all_http_log[OF assms])
next
  assume d: "\<forall>c \<in> set configs. curdate (envs (id_cfg c)) = d"
  have m: "map (\<lambda>c. sync_requests (envs (id_cfg c)) c
               (select_rooms (curdate (envs (id_cfg c))) (rooms (store w)) (bookings (store w))))
               configs
      = map (\<lambda>c. sync_requests (envs (id_cfg c)) c
                 (select_rooms d (rooms (store w)) (bookings (store w)))) configs"
    by (rule map_cong) (simp_all add: d)
  show "http_log (snd (post_sync_all None envs w)) =
               http_log w @ concat (map (\<lambda>c. sync_requests (envs (id_cfg c)) c
                 (select_rooms d (rooms (store w)) (bookings (store w)))) configs)"
    unfolding post_sync_all_http_log[OF assms] m ..
qed

text \<open>
  On day 10 the three tasks run three room queries, and the two adapters that are
  dispatched are both sent room 7 available and room 8 unavailable.
\<close>

theorem sync_all_snapshot_witness:
  "filter (\<lambda>c. is_active c = Some True) (configurations (store example_world))
     = [config_booking, config_agoda, config_expedia]
   \<and> count_list (sql_log (snd (post_sync_all None refusing_envs example_world))) Select_rooms = 3
   \<and> map body (http_log (snd (post_sync_all None refusing_envs example_world)))
     = [Ari_update (Some ''user'') (Some ''secret'') (Some ''H1'')
          [Booking_com_room 7 ''Deluxe'' 100 1 1 (Restrictions 1 30 0 0),
           Booking_com_room 8 ''Suite'' 250 0 1 (Restrictions 1 30 0 0)],
        Agoda_ari (Some ''H1'') 864000000
          [Agoda_room 7 ''Deluxe'' [Agoda_rate ''Standard'' 100 10 1 1],
           Agoda_room 8 ''Suite'' [Agoda_rate ''Standard'' 250 10 0 1]]]"
proof -
  have n: "[config_booking, config_agoda, config_expedia] \<noteq> []" by simp
  have d: "\<forall>c \<in> set [config_booking, config_agoda, config_expedia].
             curdate (refusing_envs (id_cfg c)) = 10"
    by (simp add: refusing_envs_def env_ok_def)
  note t = sync_all_snapshot[OF example_active_configs n, of refusing_envs 10]
  from t have a: "count_list (sql_log (snd (post_sync_all None refusing_envs example_world)))
      Select_rooms = 3"
    by (simp add: example_world_def)
  from t d have "http_log (snd (post_sync_all None refusing_envs example_world)) =
      http_log example_world @ concat (map (\<lambda>c. sync_requests (refusing_envs (id_cfg c)) c
         (select_rooms 10 (rooms (store example_world)) (bookings (store example_world))))
         [config_booking, config_agoda, config_expedia])"
    by blast
  then have b: "map body (http_log (snd (post_sync_all None refusing_envs example_world)))
     = [Ari_update (Some ''user'') (Some ''secret'') (Some ''H1'')
          [Booking_com_room 7 ''Deluxe'' 100 1 1 (Restrictions 1 30 0 0),
           Booking_com_room 8 ''Suite'' 250 0 1 (Restrictions 1 30 0 0)],
        Agoda_ari (Some ''H1'') 864000000
          [Agoda_room 7 ''Deluxe'' [Agoda_rate ''Standard'' 100 10 1 1],
           Agoda_room 8 ''Suite'' [Agoda_rate ''Standard'' 250 10 0 1]]]"
    by (simp add: refusing_envs_def sync_requests_def ari_request_def example_defs sync_defs)
  from example_active_configs a b show ?thesis by blast
qed

section \<open>The counts of POST /sync-all\<close>

text \<open>
  Claim C3, as stated, fails: a sync can fail although its adapter dispatch succeeds.
  Over the three active configurations, with every partner answering, one dispatch
  fails (expedia has no adapter); the update of \<open>last_sync_at\<close> of configuration 2
  fails in the store, the catch block of performOTASync returns a failure, and the
  aggregate reports two failed syncs and one successful.
\<close>

theorem sync_all_counts_counterexample:
  "failed_dispatches deadlock_envs [config_booking, config_agoda, config_expedia]
        (rooms (store example_world)) (bookings (store example_world)) = 1
   \<and> fst (post_sync_all None deadlock_envs example_world)
     = Sync_all_response
         \<lparr>total_otas = 3, successful_syncs = 1, failed_syncs = 2,
          results =
            [\<lparr>item_ota_name = ''Booking.com'', item_success = True,
              item_message = ''Booking.com ARI sync completed successfully''\<rparr>,
             \<lparr>item_ota_name = ''Agoda'', item_success = False,
              item_message = ''Deadlock found''\<rparr>,
             \<lparr>item_ota_name = ''expedia'', item_success = False,
              item_message = ''Unsupported OTA: expedia''\<rparr>]\<rparr>"
proof -
  have k: "failed_dispatches deadlock_envs [config_booking, config_agoda, config_expedia]
        (rooms (store example_world)) (bookings (store example_world)) = 1"
    by (simp add: failed_dispatches_def adapter_fails_def ari_request_def deadlock_envs_def
        example_defs sync_defs)
  have r: "fst (post_sync_all None deadlock_envs example_world)
     = Sync_all_response
         \<lparr>total_otas = 3, successful_syncs = 1, failed_syncs = 2,
          results =
            [\<lparr>item_ota_name = ''Booking.com'', item_success = True,
              item_message = ''Booking.com ARI sync completed successfully''\<rparr>,
             \<lparr>item_ota_name = ''Agoda'', item_success = False,
              item_message = ''Deadlock found''\<rparr>,
             \<lparr>item_ota_name = ''expedia'', item_success = False,
              item_message = ''Unsupported OTA: expedia''\<rparr>]\<rparr>"
    by (simp add: post_sync_all_def select_active_configs_def deadlock_envs_def
        example_defs sync_defs)
  from k r show ?thesis by blast
qed

text \<open>
  Claim C3, amended. A POST /sync-all over the N active configurations (N > 0) answers
  with the aggregate, never with an error: it has one result per configuration, in
  order and under its name, whose success flag says whether the sync of that
  configuration succeeded. The failed count is the number of configurations whose sync
  fails, that is whose adapter dispatch fails (no adapter, or a request the partner
  does not answer with 2xx) or whose room query or update of \<open>last_sync_at\<close> fails in
  the store; the successful count is N minus the failed count. When the store
  executes the room queries and the updates, the failed count is the number K of
  failed adapter dispatches and the successful count is N - K.
\<close>

theorem sync_all_counts:
  assumes "filter (\<lambda>c. is_active c = Some True) (configurations (store w)) = configs"
    and "configs \<noteq> []"
  shows "\<exists>body w'. post_sync_all None envs w = (Sync_all_response body, w')
      \<and> total_otas body = length configs
      \<and> length (results body) = length configs
      \<and> map item_ota_name (results body) = map ota_name configs
      \<and> map item_success (results body)
          = map (\<lambda>c. task_succeeds (envs (id_cfg c)) c (rooms (store w)) (bookings (store w)))
              configs
      \<and> failed_syncs body
          = length (filter (\<lambda>c. \<not> task_succeeds (envs (id_cfg c)) c
                                    (rooms (store w)) (bookings (store w))) configs)
      \<and> successful_syncs body = length configs - failed_syncs body
      \<and> successful_syncs body + failed_syncs body = length configs
      \<and> ((\<forall>c \<in> set configs. rooms_fault (envs (id_cfg c)) = None
                                 \<and> update_fault (envs (id_cfg c)) = None) \<longrightarrow>
           failed_syncs body = failed_dispatches envs configs (rooms (store w)) (bookings (store w))
           \<and> successful_syncs body
               = length configs
                 - failed_dispatches envs configs (rooms (store w)) (bookings (store w)))"
proof -
  let ?ok = "\<lambda>c. task_succeeds (envs (id_cfg c)) c (rooms (store w)) (bookings (store w))"
  from post_sync_all_items[OF assms, of envs] obtain b w' where
    p: "post_sync_all None envs w = (Sync_all_response b, w')"
    and t: "total_otas b = length configs"
    and n: "map item_ota_name (results b) = map ota_name configs"
    and m: "map item_success (results b) = map ?ok configs"
    and sc: "successful_syncs b = length (filter (\<lambda>r. item_success r) (results b))"
    and fc: "failed_syncs b = length (filter (\<lambda>r. \<not> item_success r) (results b))"
    by blast
  from n have l: "length (results b) = length configs"
    using map_eq_imp_length_eq by blast
  have f: "failed_syncs b = length (filter (\<lambda>c. \<not> ?ok c) configs)"
    unfolding fc using count_by_map[OF m, of Not] .
  have s: "successful_syncs b + failed_syncs b = length configs"
    unfolding sc fc using sum_length_filter_compl[of item_success "results b"] l by simp
  then have d: "successful_syncs b = length configs - failed_syncs b"
    by linarith
  have k: "(\<forall>c \<in> set configs. rooms_fault (envs (id_cfg c)) = None
                                 \<and> update_fault (envs (id_cfg c)) = None) \<longrightarrow>
           failed_syncs b = failed_dispatches envs configs (rooms (store w)) (bookings (store w))
           \<and> successful_syncs b
               = length configs
                 - failed_dispatches envs configs (rooms (store w)) (bookings (store w))"
  proof
    assume h: "\<forall>c \<in> set configs. rooms_fault (envs (id_cfg c)) = None
                                 \<and> update_fault (envs (id_cfg c)) = None"
    have "filter (\<lambda>c. \<not> ?ok c) configs
        = filter (\<lambda>c. adapter_fails (envs (id_cfg c)) c
             (select_rooms (curdate (envs (id_cfg c))) (rooms (store w)) (bookings (store w))))
           configs"
      using h by (intro filter_cong) (auto simp: task_succeeds_def)
    then have "failed_syncs b
        = failed_dispatches envs configs (rooms (store w)) (bookings (store w))"
      unfolding f failed_dispatches_def by simp
    with d show "failed_syncs b
          = failed_dispatches envs configs (rooms (store w)) (bookings (store w))
        \<and> successful_syncs b
          = length configs
            - failed_dispatches envs configs (rooms (store w)) (bookings (store w))"
      by simp
  qed
  show ?thesis
    using p t l n m f d s k by blast
qed

text \<open>
  Three active configurations: Booking.com answers, Agoda refuses the connection,
  expedia has no adapter, and the store executes every statement. Two dispatches fail,
  and the aggregate reports 1 and 2.
\<close>

theorem sync_all_counts_witness:
  "filter (\<lambda>c. is_active c = Some True) (configurations (store example_world))
     = [config_booking, config_agoda, config_expedia]
   \<and> failed_dispatches refusing_envs [config_booking, config_agoda, config_expedia]
        (rooms (store example_world)) (bookings (store example_world)) = 2
   \<and> (\<exists>body w'. post_sync_all None refusing_envs example_world = (Sync_all_response body, w')
        \<and> total_otas body = 3 \<and> successful_syncs body = 1 \<and> failed_syncs body = 2
        \<and> map item_ota_name (results body) = [''Booking.com'', ''Agoda'', ''expedia'']
        \<and> map item_success (results body) = [True, False, False])"
proof -
  have n: "[config_booking, config_agoda, config_expedia] \<noteq> []" by simp
  have h: "\<forall>c \<in> set [config_booking, config_agoda, config_expedia].
             rooms_fault (refusing_envs (id_cfg c)) = None
             \<and> update_fault (refusing_envs (id_cfg c)) = None"
    by (simp add: refusing_envs_def env_ok_def)
  have k: "failed_dispatches refusing_envs [config_booking, config_agoda, config_expedia]
        (rooms (store example_world)) (bookings (store example_world)) = 2"
    by (simp add: failed_dispatches_def adapter_fails_def ari_request_def refusing_envs_def
        example_defs sync_defs)
  have o: "map (\<lambda>c. task_succeeds (refusing_envs (id_cfg c)) c
                 (rooms (store example_world)) (bookings (store example_world)))
             [config_booking, config_agoda, config_expedia] = [True, False, False]"
    by (simp add: task_succeeds_def adapter_fails_def ari_request_def refusing_envs_def
        example_defs sync_defs)
  from sync_all_counts[OF example_active_configs n, of refusing_envs] obtain b w' where
    p: "post_sync_all None refusing_envs example_world = (Sync_all_response b, w')"
    and t: "total_otas b = length [config_booking, config_agoda, config_expedia]"
    and m: "map item_ota_name (results b)
              = map ota_name [config_booking, config_agoda, config_expedia]"
    and ms: "map item_success (results b)
              = map (\<lambda>c. task_succeeds (refusing_envs (id_cfg c)) c
                 (rooms (store example_world)) (bookings (store example_world)))
                 [config_booking, config_agoda, config_expedia]"
    and f: "(\<forall>c \<in> set [config_booking, config_agoda, config_expedia].
               rooms_fault (refusing_envs (id_cfg c)) = None
               \<and> update_fault (refusing_envs (id_cfg c)) = None) \<longrightarrow>
           failed_syncs b = failed_dispatches refusing_envs
               [config_booking, config_agoda, config_expedia]
               (rooms (store example_world)) (bookings (store example_world))
           \<and> successful_syncs b
               = length [config_booking, config_agoda, config_expedia]
                 - failed_dispatches refusing_envs [config_booking, config_agoda, config_expedia]
                     (rooms (store example_world)) (bookings (store example_world))"
    by blast
  from f h k have c: "failed_syncs b = 2 \<and> successful_syncs b = 1" by simp
  have m': "map item_ota_name (results b) = [''Booking.com'', ''Agoda'', ''expedia'']"
    using m by (simp add: config_booking_def config_agoda_def config_expedia_def)
  have ms': "map item_success (results b) = [True, False, False]"
    unfolding ms o ..
  from p t c m' ms' have "\<exists>body w'. post_sync_all None refusing_envs example_world
          = (Sync_all_response body, w')
        \<and> total_otas body = 3 \<and> successful_syncs body = 1 \<and> failed_syncs body = 2
        \<and> map item_ota_name (results body) = [''Booking.com'', ''Agoda'', ''expedia'']
        \<and> map item_success (results body) = [True, False, False]"
    by simp
  with example_active_configs k show ?thesis by blast
qed

section \<open>POST /test-connection/:id is read-only\<close>

lemma test_switch_store:
  "store (snd (test_switch answer t c w)) = store w
   \<and> sql_log (snd (test_switch answer t c w)) = sql_log w"
  by (simp add: test_switch_def axios_def Let_def split: sum.splits)

lemma post_test_connection_snd:
  "snd (post_test_connection f answer t i w) =
     (case f of
        Some e \<Rightarrow> w\<lparr>sql_log := sql_log w @ [Select_config_by_id]\<rparr>
      | None \<Rightarrow>
          (case filter (\<lambda>c. id_cfg c = i) (configurations (store w)) of
             [] \<Rightarrow> w\<lparr>sql_log := sql_log w @ [Select_config_by_id]\<rparr>
           | c # cs \<Rightarrow>
               snd (test_switch answer t c (w\<lparr>sql_log := sql_log w @ [Select_config_by_id]\<rparr>))))"
  by (simp add: post_test_connection_def db_execute_def select_config_by_id_def Let_def
      split: option.splits list.splits prod.splits)

lemma post_test_connection_store:
  "store (snd (post_test_connection f answer t i w)) = store w"
  unfolding post_test_connection_snd
  by (simp add: test_switch_store split: option.splits list.splits)

lemma post_test_connection_sql_log:
  "sql_log (snd (post_test_connection f answer t i w)) = sql_log w @ [Select_config_by_id]"
  unfolding post_test_connection_snd
  by (simp add: test_switch_store split: option.splits list.splits)

lemma repeat_test_connection_store:
  "store (repeat_test_connection envs n i w) = store w"
proof (induction n arbitrary: w)
  case 0
  show ?case by simp
next
  case (Suc n)
  obtain f answer t where e: "envs n = (f, answer, t)"
    by (cases "envs n") auto
  show ?case
    by (simp add: e Suc.IH post_test_connection_store)
qed

lemma repeat_test_connection_sql_log:
  "sql_log (repeat_test_connection envs n i w) = sql_log w @ replicate n Select_config_by_id"
proof (induction n arbitrary: w)
  case 0
  show ?case by simp
next
  case (Suc n)
  obtain f answer t where e: "envs n = (f, answer, t)"
    by (cases "envs n") auto
  show ?case
    by (simp add: e Suc.IH post_test_connection_sql_log replicate_app_Cons_same)
qed

text \<open>
  Claim C9. A connection test, and any number \<open>n\<close> of them in a row, whatever the
  store and the partner answer, leaves the stored tables as they were: no
  \<open>last_sync_at\<close> changes and no log row is written. The only statement a test issues
  is the select of the configuration.
\<close>

theorem test_connection_read_only:
  "store (snd (post_test_connection f answer t i w)) = store w
   \<and> store (repeat_test_connection envs n i w) = store w
   \<and> map last_sync_at (configurations (store (repeat_test_connection envs n i w)))
       = map last_sync_at (configurations (store w))
   \<and> sync_logs (store (repeat_test_connection envs n i w)) = sync_logs (store w)
   \<and> sql_log (repeat_test_connection envs n i w) = sql_log w @ replicate n Select_config_by_id"
  by (simp add: post_test_connection_store repeat_test_connection_store
      repeat_test_connection_sql_log)

text \<open>Three tests of configuration 2 on the example store send three requests and store nothing.\<close>

theorem test_connection_read_only_witness:
  "store (repeat_test_connection probe_envs 3 2 example_world) = store example_world
   \<and> sync_logs (store (repeat_test_connection probe_envs 3 2 example_world)) = []
   \<and> length (http_log (repeat_test_connection probe_envs 3 2 example_world)) = 3"
proof -
  have a: "length (http_log (repeat_test_connection probe_envs 3 2 example_world)) = 3"
    by (simp add: numeral_3_eq_3 probe_envs_def post_test_connection_def db_execute_def
        select_config_by_id_def test_switch_def axios_def toLowerCase_def lower_char_def
        Let_def example_defs)
  from test_connection_read_only[of None always_ok 0 2 example_world probe_envs 3] a
  show ?thesis
    by (simp add: example_world_def)
qed

lemmas crud_defs = post_configurations_def put_configuration_def delete_configuration_def
  db_execute_def select_config_by_name_def insert_config_def select_created_config_def
  select_config_by_id_def update_config_def delete_config_def falsy_def Let_def
  initial_world_def initial_db_def body_agoda_def body_Agoda_def body_airbnb_def

section \<open>Uniqueness of ota_name\<close>

lemma two_configs_world_eval:
  "two_configs_world =
     \<lparr>store = \<lparr>configurations =
        [\<lparr>id_cfg = 1, ota_name = ''agoda'', api_key = Some ''k1'', api_username = Some ''user'',
          api_password = Some ''secret'', endpoint_url = Some ''https://example/agoda'',
          hotel_id = Some ''H1'', is_active = Some True, last_sync_at = None,
          sync_frequency = Some 30\<rparr>,
         \<lparr>id_cfg = 2, ota_name = ''airbnb'', api_key = Some ''k3'', api_username = Some ''host'',
          api_password = Some ''secret'', endpoint_url = Some ''https://api.airbnb.com/'',
          hotel_id = Some ''L9'', is_active = Some True, last_sync_at = None,
          sync_frequency = Some 30\<rparr>],
        sync_logs = [], rooms = [], bookings = [], next_cfg_id = 3, next_log_id = 1\<rparr>,
      sql_log = [Select_config_by_name, Insert_config, Select_created_config,
                 Select_config_by_name, Insert_config, Select_created_config],
      http_log = []\<rparr>"
  by (simp add: two_configs_world_def crud_defs)

text \<open>
  What POST /configurations does when the store executes its statements: it refuses a
  name that the collation holds equal to a stored one, and otherwise appends the new
  row.
\<close>

lemma post_configurations_exists:
  assumes "b_ota_name b = Some name" and "name \<noteq> []" and "\<not> falsy (b_endpoint_url b)"
    and "c \<in> set (configurations (store w))" and "coll (ota_name c) name"
  shows "post_configurations coll None fault2 fault3 b w
           = (Error_response 400 ''Configuration already exists for this OTA'',
              w\<lparr>sql_log := sql_log w @ [Select_config_by_name]\<rparr>)"
proof -
  have "filter (\<lambda>c. coll (ota_name c) name) (configurations (store w)) \<noteq> []"
    using assms(4,5) by (auto simp: filter_empty_conv)
  then show ?thesis
    using assms(1,2,3)
    by (simp add: post_configurations_def db_execute_def select_config_by_name_def falsy_def
        Let_def)
qed

lemma post_configurations_created:
  assumes "b_ota_name b = Some name" and "name \<noteq> []" and "\<not> falsy (b_endpoint_url b)"
    and "\<forall>c \<in> set (configurations (store w)). \<not> coll (ota_name c) name"
  shows "\<exists>v w1. post_configurations coll None None None b w = (Created_response v, w1)
           \<and> map ota_name (configurations (store w1))
               = map ota_name (configurations (store w)) @ [name]"
proof -
  have "filter (\<lambda>c. coll (ota_name c) name) (configurations (store w)) = []"
    using assms(4) by (simp add: filter_empty_conv)
  then show ?thesis
    using assms(1,2,3)
    by (simp add: post_configurations_def db_execute_def select_config_by_name_def falsy_def
        insert_config_def select_created_config_def Let_def)
qed

text \<open>
  Under exact comparison, a creation keeps the names of the stored configurations
  distinct, whatever it answers.
\<close>

lemma post_configurations_distinct:
  assumes "distinct (map ota_name (configurations (store w)))"
  shows "distinct (map ota_name (configurations (store
           (snd (post_configurations (=) fault1 fault2 fault3 b w)))))"
proof -
  have "filter (\<lambda>c. ota_name c = name) (configurations (store w)) = []
        \<Longrightarrow> name \<notin> ota_name ` set (configurations (store w))" for name
    by (auto simp: filter_empty_conv)
  then show ?thesis
    using assms
    by (auto simp: post_configurations_def db_execute_def select_config_by_name_def
        insert_config_def select_created_config_def Let_def
        split: option.splits)
qed

text \<open>
  Claim C5: the code at the failing input. On the store that holds \<open>agoda\<close> (id 1)
  and \<open>airbnb\<close> (id 2), creating a second \<open>agoda\<close> is refused, but
  PUT /configurations/2 with \<open>ota_name = agoda\<close> is accepted, and two configurations
  then share the name.
\<close>

theorem update_duplicates_ota_name:
  "map ota_name (configurations (store two_configs_world)) = [''agoda'', ''airbnb'']
   \<and> fst (post_configurations (=) None None None body_agoda two_configs_world)
       = Error_response 400 ''Configuration already exists for this OTA''
   \<and> fst (put_configuration None None 2 body_agoda two_configs_world)
       = Message_response ''OTA configuration updated successfully''
   \<and> map ota_name (configurations (store (snd
        (put_configuration None None 2 body_agoda two_configs_world))))
       = [''agoda'', ''agoda'']"
  unfolding two_configs_world_eval
  by (simp add: crud_defs)

section \<open>Names that differ only in letter case\<close>

lemma dispatch_agoda:
  "toLowerCase (ota_name c) = ''agoda'' \<Longrightarrow>
   dispatch env c rs w = (case syncAgodaARI env c rs w of (r, w1) \<Rightarrow> (Inr r, w1))"
  by (simp add: dispatch_def)

lemma lower_Agoda: "toLowerCase ''Agoda'' = ''agoda''" "toLowerCase ''agoda'' = ''agoda''"
  by (simp_all add: toLowerCase_def lower_char_def)

text \<open>
  Under a collation that does not tell \<open>Agoda\<close> from \<open>agoda\<close>, the second creation is
  refused.
\<close>

lemma case_insensitive_collation_refuses:
  assumes "coll ''Agoda'' ''agoda''"
    and "c \<in> set (configurations (store w))" and "ota_name c = ''Agoda''"
    and "b_ota_name b = Some ''agoda''" and "\<not> falsy (b_endpoint_url b)"
  shows "fst (post_configurations coll None fault2 fault3 b w)
           = Error_response 400 ''Configuration already exists for this OTA''"
proof -
  have ne: "''agoda'' \<noteq> []" by simp
  have "coll (ota_name c) ''agoda''" using assms(1,3) by simp
  from post_configurations_exists[of b "''agoda''" c w coll fault2 fault3,
      OF assms(4) ne assms(5) assms(2) this]
  show ?thesis by simp
qed

lemma case_sensitive_collation_creates:
  assumes "\<not> coll ''Agoda'' ''agoda''"
    and "\<forall>c \<in> set (configurations (store w)).
           \<not> coll (ota_name c) ''Agoda'' \<and> \<not> coll (ota_name c) ''agoda''"
    and "b_ota_name b1 = Some ''Agoda''" and "\<not> falsy (b_endpoint_url b1)"
    and "b_ota_name b2 = Some ''agoda''" and "\<not> falsy (b_endpoint_url b2)"
  shows "\<exists>v1 w1 v2 w2.
           post_configurations coll None None None b1 w = (Created_response v1, w1)
         \<and> post_configurations coll None None None b2 w1 = (Created_response v2, w2)
         \<and> map ota_name (configurations (store w2))
             = map ota_name (configurations (store w)) @ [''Agoda'', ''agoda'']"
proof -
  have h1: "\<forall>c \<in> set (configurations (store w)). \<not> coll (ota_name c) ''Agoda''"
    using assms(2) by blast
  have ne: "''Agoda'' \<noteq> []" "''agoda'' \<noteq> []" by simp_all
  from post_configurations_created[of b1 "''Agoda''" w coll, OF assms(3) ne(1) assms(4) h1]
  obtain v1 w1 where
    p1: "post_configurations coll None None None b1 w = (Created_response v1, w1)"
    and n1: "map ota_name (configurations (store w1))
               = map ota_name (configurations (store w)) @ [''Agoda'']"
    by auto
  have h2: "\<forall>c \<in> set (configurations (store w1)). \<not> coll (ota_name c) ''agoda''"
  proof
    fix c
    assume "c \<in> set (configurations (store w1))"
    then have "ota_name c \<in> set (map ota_name (configurations (store w1)))"
      by simp
    then have "ota_name c = ''Agoda'' \<or> ota_name c \<in> ota_name ` set (configurations (store w))"
      unfolding n1 by auto
    then show "\<not> coll (ota_name c) ''agoda''"
      using assms(1,2) by auto
  qed
  from post_configurations_created[of b2 "''agoda''" w1 coll, OF assms(5) ne(2) assms(6) h2]
  obtain v2 w2 where
    p2: "post_configurations coll None None None b2 w1 = (Created_response v2, w2)"
    and n2: "map ota_name (configurations (store w2))
               = map ota_name (configurations (store w1)) @ [''agoda'']"
    by auto
  from p1 p2 n1 n2 show ?thesis by simp
qed

lemma case_insensitive_collation_second_refused:
  assumes "coll ''Agoda'' ''agoda''"
    and "\<forall>c \<in> set (configurations (store w)). \<not> coll (ota_name c) ''Agoda''"
    and "b_ota_name b1 = Some ''Agoda''" and "\<not> falsy (b_endpoint_url b1)"
    and "b_ota_name b2 = Some ''agoda''" and "\<not> falsy (b_endpoint_url b2)"
  shows "\<exists>v1 w1.
           post_configurations coll None None None b1 w = (Created_response v1, w1)
         \<and> fst (post_configurations coll None None None b2 w1)
             = Error_response 400 ''Configuration already exists for this OTA''"
proof -
  have ne: "''Agoda'' \<noteq> []" by simp
  from post_configurations_created[of b1 "''Agoda''" w coll, OF assms(3) ne assms(4) assms(2)]
  obtain v1 w1 where
    p1: "post_configurations coll None None None b1 w = (Created_response v1, w1)"
    and n1: "map ota_name (configurations (store w1))
               = map ota_name (configurations (store w)) @ [''Agoda'']"
    by auto
  have "''Agoda'' \<in> set (map ota_name (configurations (store w1)))"
    unfolding n1 by simp
  then obtain c where c: "c \<in> set (configurations (store w1))" "ota_name c = ''Agoda''"
    by auto
  have "fst (post_configurations coll None None None b2 w1)
          = Error_response 400 ''Configuration already exists for this OTA''"
    using assms(1) c assms(5) assms(6)
    by (rule case_insensitive_collation_refuses[of coll c w1 b2 None None])
  with p1 show ?thesis by blast
qed

text \<open>
  Claim C10, as stated, fails under the default collation of MySQL 8, the server the
  README requires: the comparison of the gate is the SQL operator \<open>=\<close> on a column
  for which schema.sql sets no collation, and it then holds \<open>Agoda\<close> and \<open>agoda\<close>
  equal. On the empty store \<open>Agoda\<close> is created and \<open>agoda\<close> is refused.
\<close>

theorem case_variants_counterexample:
  "fst (post_configurations collation_ci None None None body_Agoda initial_world)
     = Created_response (Some (Configuration_view 1 ''Agoda'' (Some ''user'')
         (Some ''https://example/agoda'') (Some ''H1'') (Some True) (Some 30)))
   \<and> fst (post_configurations collation_ci None None None body_agoda
        (snd (post_configurations collation_ci None None None body_Agoda initial_world)))
     = Error_response 400 ''Configuration already exists for this OTA''"
  by (simp add: crud_defs collation_ci_def toLowerCase_def lower_char_def)

text \<open>
  Claim C10, amended. The creation route passes \<open>ota_name\<close> unchanged to the
  comparison of the store, whose case sensitivity is that of the collation of the
  column, and the dispatch lower-cases the name, so that a configuration named
  \<open>Agoda\<close> or \<open>agoda\<close> is dispatched to the Agoda adapter. On a store that holds
  neither name: under a collation that tells \<open>Agoda\<close> from \<open>agoda\<close> both
  configurations are created; under a collation that holds them equal \<open>Agoda\<close> is
  created and \<open>agoda\<close> is then refused.
\<close>

theorem case_variants_creation:
  "(\<not> coll ''Agoda'' ''agoda''
      \<and> (\<forall>c \<in> set (configurations (store w)).
            \<not> coll (ota_name c) ''Agoda'' \<and> \<not> coll (ota_name c) ''agoda'')
      \<and> b_ota_name b1 = Some ''Agoda'' \<and> \<not> falsy (b_endpoint_url b1)
      \<and> b_ota_name b2 = Some ''agoda'' \<and> \<not> falsy (b_endpoint_url b2) \<longrightarrow>
    (\<exists>v1 w1 v2 w2.
        post_configurations coll None None None b1 w = (Created_response v1, w1)
      \<and> post_configurations coll None None None b2 w1 = (Created_response v2, w2)
      \<and> map ota_name (configurations (store w2))
          = map ota_name (configurations (store w)) @ [''Agoda'', ''agoda'']))
   \<and> (coll ''Agoda'' ''agoda''
      \<and> (\<forall>c \<in> set (configurations (store w)). \<not> coll (ota_name c) ''Agoda'')
      \<and> b_ota_name b1 = Some ''Agoda'' \<and> \<not> falsy (b_endpoint_url b1)
      \<and> b_ota_name b2 = Some ''agoda'' \<and> \<not> falsy (b_endpoint_url b2) \<longrightarrow>
    (\<exists>v1 w1.
        post_configurations coll None None None b1 w = (Created_response v1, w1)
      \<and> fst (post_configurations coll None None None b2 w1)
          = Error_response 400 ''Configuration already exists for this OTA''))
   \<and> (\<forall>c. ota_name c = ''Agoda'' \<or> ota_name c = ''agoda'' \<longrightarrow>
         dispatch env c rs w' = (case syncAgodaARI env c rs w' of (r, w3) \<Rightarrow> (Inr r, w3)))"
proof (intro conjI)
  show "\<not> coll ''Agoda'' ''agoda''
      \<and> (\<forall>c \<in> set (configurations (store w)).
            \<not> coll (ota_name c) ''Agoda'' \<and> \<not> coll (ota_name c) ''agoda'')
      \<and> b_ota_name b1 = Some ''Agoda'' \<and> \<not> falsy (b_endpoint_url b1)
      \<and> b_ota_name b2 = Some ''agoda'' \<and> \<not> falsy (b_endpoint_url b2) \<longrightarrow>
    (\<exists>v1 w1 v2 w2.
        post_configurations coll None None None b1 w = (Created_response v1, w1)
      \<and> post_configurations coll None None None b2 w1 = (Created_response v2, w2)
      \<and> map ota_name (configurations (store w2))
          = map ota_name (configurations (store w)) @ [''Agoda'', ''agoda''])"
    using case_sensitive_collation_creates[of coll w b1 b2] by blast
next
  show "coll ''Agoda'' ''agoda''
      \<and> (\<forall>c \<in> set (configurations (store w)). \<not> coll (ota_name c) ''Agoda'')
      \<and> b_ota_name b1 = Some ''Agoda'' \<and> \<not> falsy (b_endpoint_url b1)
      \<and> b_ota_name b2 = Some ''agoda'' \<and> \<not> falsy (b_endpoint_url b2) \<longrightarrow>
    (\<exists>v1 w1.
        post_configurations coll None None None b1 w = (Created_response v1, w1)
      \<and> fst (post_configurations coll None None None b2 w1)
          = Error_response 400 ''Configuration already exists for this OTA'')"
    using case_insensitive_collation_second_refused[of coll w b1 b2] by blast
next
  show "\<forall>c. ota_name c = ''Agoda'' \<or> ota_name c = ''agoda'' \<longrightarrow>
         dispatch env c rs w' = (case syncAgodaARI env c rs w' of (r, w3) \<Rightarrow> (Inr r, w3))"
    using dispatch_agoda lower_Agoda by metis
qed

text \<open>On the empty store, with exact comparison and with the default collation.\<close>

theorem case_variants_creation_witness:
  "\<not> (''Agoda'' = ''agoda'')
   \<and> collation_ci ''Agoda'' ''agoda''
   \<and> configurations (store initial_world) = []
   \<and> (\<exists>v1 w1 v2 w2.
         post_configurations (=) None None None body_Agoda initial_world = (Created_response v1, w1)
         \<and> post_configurations (=) None None None body_agoda w1 = (Created_response v2, w2)
         \<and> map ota_name (configurations (store w2)) = [''Agoda'', ''agoda''])
   \<and> (\<exists>v1 w1.
         post_configurations collation_ci None None None body_Agoda initial_world
           = (Created_response v1, w1)
         \<and> fst (post_configurations collation_ci None None None body_agoda w1)
           = Error_response 400 ''Configuration already exists for this OTA'')"
proof -
  have a: "\<not> (''Agoda'' = ''agoda'')" by simp
  have ci: "collation_ci ''Agoda'' ''agoda''"
    by (simp add: collation_ci_def toLowerCase_def lower_char_def)
  have e: "configurations (store initial_world) = []"
    by (simp add: initial_world_def initial_db_def)
  have b: "\<forall>c \<in> set (configurations (store initial_world)).
           \<not> (ota_name c = ''Agoda'') \<and> \<not> (ota_name c = ''agoda'')"
    by (simp add: e)
  have b': "\<forall>c \<in> set (configurations (store initial_world)).
           \<not> collation_ci (ota_name c) ''Agoda''"
    by (simp add: e)
  have c1: "b_ota_name body_Agoda = Some ''Agoda''" "\<not> falsy (b_endpoint_url body_Agoda)"
    by (simp_all add: body_Agoda_def body_agoda_def falsy_def)
  have c2: "b_ota_name body_agoda = Some ''agoda''" "\<not> falsy (b_endpoint_url body_agoda)"
    by (simp_all add: body_agoda_def falsy_def)
  from case_variants_creation[of "(=)" initial_world body_Agoda body_agoda env_ok "[]"
      initial_world] a b c1 c2
  obtain v1 w1 v2 w2 where
    "post_configurations (=) None None None body_Agoda initial_world = (Created_response v1, w1)"
    "post_configurations (=) None None None body_agoda w1 = (Created_response v2, w2)"
    "map ota_name (configurations (store w2))
       = map ota_name (configurations (store initial_world)) @ [''Agoda'', ''agoda'']"
    by blast
  with e have s: "\<exists>v1 w1 v2 w2.
         post_configurations (=) None None None body_Agoda initial_world = (Created_response v1, w1)
         \<and> post_configurations (=) None None None body_agoda w1 = (Created_response v2, w2)
         \<and> map ota_name (configurations (store w2)) = [''Agoda'', ''agoda'']"
    by auto
  from case_variants_creation[of collation_ci initial_world body_Agoda body_agoda env_ok "[]"
      initial_world] ci b' c1 c2
  have i: "\<exists>v1 w1.
         post_configurations collation_ci None None None body_Agoda initial_world
           = (Created_response v1, w1)
         \<and> fst (post_configurations collation_ci None None None body_agoda w1)
           = Error_response 400 ''Configuration already exists for this OTA''"
    by blast
  from a ci e s i show ?thesis by blast
qed

section \<open>Deleting a configuration that has log entries\<close>

lemma no_config_with_id:
  "(length (filter (\<lambda>c. id_cfg c = i) cs) = 0) = (\<not> list_ex (\<lambda>c. id_cfg c = i) cs)"
  by (simp add: filter_empty_conv list_ex_iff)

text \<open>The four ways DELETE /configurations/:id ends.\<close>

lemma delete_configuration_eq:
  "delete_configuration fault1 fault2 i w =
     (case fault1 of
        Some e \<Rightarrow>
          (Error_response 500 ''Internal server error'',
           w\<lparr>sql_log := sql_log w @ [Select_config_by_id]\<rparr>)
      | None \<Rightarrow>
          if \<not> list_ex (\<lambda>c. id_cfg c = i) (configurations (store w))
          then (Error_response 404 ''Configuration not found'',
                w\<lparr>sql_log := sql_log w @ [Select_config_by_id]\<rparr>)
          else if fault2 = None
                  \<and> \<not> list_ex (\<lambda>l. ota_configuration_id l = Some i) (sync_logs (store w))
          then (Message_response ''OTA configuration deleted successfully'',
                w\<lparr>sql_log := sql_log w @ [Select_config_by_id, Delete_config],
                  store := (store w)\<lparr>configurations :=
                             filter (\<lambda>c. id_cfg c \<noteq> i) (configurations (store w))\<rparr>\<rparr>)
          else (Error_response 500 ''Internal server error'',
                w\<lparr>sql_log := sql_log w @ [Select_config_by_id, Delete_config]\<rparr>))"
  by (simp add: delete_configuration_def db_execute_def select_config_by_id_def
      delete_config_def Let_def filter_empty_conv list_ex_iff split: option.splits)

text \<open>The rows of the join of GET /sync-logs.\<close>

lemma joined_rows_after_delete:
  assumes "\<not> list_ex (\<lambda>l. ota_configuration_id l = Some i) ls"
  shows "concat (map (\<lambda>sl. map (\<lambda>oc. (sl, ota_name oc))
                          (filter (\<lambda>oc. ota_configuration_id sl = Some (id_cfg oc))
                             (filter (\<lambda>c. id_cfg c \<noteq> i) cs))) ls)
       = concat (map (\<lambda>sl. map (\<lambda>oc. (sl, ota_name oc))
                          (filter (\<lambda>oc. ota_configuration_id sl = Some (id_cfg oc)) cs)) ls)"
proof -
  have "filter (\<lambda>oc. ota_configuration_id sl = Some (id_cfg oc)) (filter (\<lambda>c. id_cfg c \<noteq> i) cs)
      = filter (\<lambda>oc. ota_configuration_id sl = Some (id_cfg oc)) cs" if "sl \<in> set ls" for sl
  proof -
    from assms that have "ota_configuration_id sl \<noteq> Some i"
      by (auto simp: list_ex_iff)
    then show ?thesis
      unfolding filter_filter by (intro filter_cong) auto
  qed
  then have "map (\<lambda>sl. map (\<lambda>oc. (sl, ota_name oc))
                          (filter (\<lambda>oc. ota_configuration_id sl = Some (id_cfg oc))
                             (filter (\<lambda>c. id_cfg c \<noteq> i) cs))) ls
       = map (\<lambda>sl. map (\<lambda>oc. (sl, ota_name oc))
                          (filter (\<lambda>oc. ota_configuration_id sl = Some (id_cfg oc)) cs)) ls"
    by (intro map_cong) (simp_all del: filter_filter)
  then show ?thesis by (rule arg_cong)
qed

lemma get_sync_logs_fst:
  "fst (get_sync_logs fault ota_id limit_q page_q w) =
     (case fault of
        Some e \<Rightarrow> Error_response 500 ''Internal server error''
      | None \<Rightarrow>
          (case map_sum id fst
                  (select_sync_logs ota_id (case limit_q of None \<Rightarrow> 50 | Some l \<Rightarrow> l)
                     ((int (case page_q of None \<Rightarrow> 1 | Some p \<Rightarrow> p) - 1)
                        * int (case limit_q of None \<Rightarrow> 50 | Some l \<Rightarrow> l)) (store w)) of
             Inl e \<Rightarrow> Error_response 500 ''Internal server error''
           | Inr logs \<Rightarrow> Logs_response logs))"
  by (simp add: get_sync_logs_def db_execute_def Let_def split: option.splits sum.splits)

lemma select_sync_logs_after_delete:
  assumes "\<not> list_ex (\<lambda>l. ota_configuration_id l = Some i) (sync_logs s)"
  shows "map_sum id fst (select_sync_logs ota_id lim off
            (s\<lparr>configurations := filter (\<lambda>c. id_cfg c \<noteq> i) (configurations s)\<rparr>))
       = map_sum id fst (select_sync_logs ota_id lim off s)"
  by (simp add: select_sync_logs_def joined_rows_after_delete[OF assms] del: filter_filter)

lemma get_sync_logs_after_delete:
  "fst (get_sync_logs fault ota_id limit_q page_q (snd (delete_configuration fault1 fault2 i w)))
     = fst (get_sync_logs fault ota_id limit_q page_q w)"
proof (cases "fault1 = None \<and> list_ex (\<lambda>c. id_cfg c = i) (configurations (store w))
               \<and> fault2 = None
               \<and> \<not> list_ex (\<lambda>l. ota_configuration_id l = Some i) (sync_logs (store w))")
  case True
  then have s: "store (snd (delete_configuration fault1 fault2 i w))
      = (store w)\<lparr>configurations := filter (\<lambda>c. id_cfg c \<noteq> i) (configurations (store w))\<rparr>"
    by (simp add: delete_configuration_eq)
  from True have n: "\<not> list_ex (\<lambda>l. ota_configuration_id l = Some i) (sync_logs (store w))"
    by simp
  show ?thesis
    unfolding get_sync_logs_fst s select_sync_logs_after_delete[OF n] ..
next
  case False
  then have e: "store (snd (delete_configuration fault1 fault2 i w)) = store w"
    by (auto simp: delete_configuration_eq split: option.splits)
  show ?thesis
    unfolding get_sync_logs_fst e ..
qed

lemma synced_world_eval:
  "map ota_configuration_id (sync_logs (store synced_world)) = [Some 1]
   \<and> map id_cfg (configurations (store synced_world)) = [1, 2, 3]"
  by (simp add: synced_world_def example_defs sync_defs)

text \<open>
  Claim C8, as stated, fails: an operator cannot delete a configuration that has log
  entries. After one sync of configuration 1 its log entry references it, the DELETE
  violates the foreign key of \<open>ota_sync_logs\<close>, the route answers 500, and the
  configuration is still stored.
\<close>

theorem delete_with_logs_counterexample:
  "map ota_configuration_id (sync_logs (store synced_world)) = [Some 1]
   \<and> fst (delete_configuration None None 1 synced_world)
       = Error_response 500 ''Internal server error''
   \<and> map id_cfg (configurations (store (snd (delete_configuration None None 1 synced_world))))
       = [1, 2, 3]"
proof -
  have l: "list_ex (\<lambda>l. ota_configuration_id l = Some 1) (sync_logs (store synced_world))"
    using synced_world_eval by (auto simp: list_ex_iff)
  have c: "list_ex (\<lambda>c. id_cfg c = 1) (configurations (store synced_world))"
    using synced_world_eval by (auto simp: list_ex_iff)
  show ?thesis
    using synced_world_eval l c by (simp add: delete_configuration_eq)
qed

text \<open>
  Claim C8, amended. DELETE /configurations/:id never removes a log entry and never
  changes what GET /sync-logs answers. A configuration that log entries reference is
  not deleted: the foreign key refuses the DELETE, the route answers 500 and the store
  is unchanged. A configuration without log entries is deleted.
\<close>

theorem delete_keeps_sync_logs:
  "sync_logs (store (snd (delete_configuration fault1 fault2 i w))) = sync_logs (store w)
   \<and> fst (get_sync_logs fault ota_id limit_q page_q (snd (delete_configuration fault1 fault2 i w)))
       = fst (get_sync_logs fault ota_id limit_q page_q w)
   \<and> (list_ex (\<lambda>l. ota_configuration_id l = Some i) (sync_logs (store w))
        \<and> list_ex (\<lambda>c. id_cfg c = i) (configurations (store w)) \<and> fault1 = None \<longrightarrow>
      fst (delete_configuration fault1 fault2 i w) = Error_response 500 ''Internal server error''
      \<and> store (snd (delete_configuration fault1 fault2 i w)) = store w)
   \<and> (\<not> list_ex (\<lambda>l. ota_configuration_id l = Some i) (sync_logs (store w))
        \<and> list_ex (\<lambda>c. id_cfg c = i) (configurations (store w))
        \<and> fault1 = None \<and> fault2 = None \<longrightarrow>
      fst (delete_configuration fault1 fault2 i w)
        = Message_response ''OTA configuration deleted successfully''
      \<and> configurations (store (snd (delete_configuration fault1 fault2 i w)))
        = filter (\<lambda>c. id_cfg c \<noteq> i) (configurations (store w)))"
proof (intro conjI impI)
  show "sync_logs (store (snd (delete_configuration fault1 fault2 i w))) = sync_logs (store w)"
    by (simp add: delete_configuration_eq split: option.splits)
next
  show "fst (get_sync_logs fault ota_id limit_q page_q (snd (delete_configuration fault1 fault2 i w)))
       = fst (get_sync_logs fault ota_id limit_q page_q w)"
    by (rule get_sync_logs_after_delete)
next
  assume a: "list_ex (\<lambda>l. ota_configuration_id l = Some i) (sync_logs (store w))
        \<and> list_ex (\<lambda>c. id_cfg c = i) (configurations (store w)) \<and> fault1 = None"
  then show "fst (delete_configuration fault1 fault2 i w)
      = Error_response 500 ''Internal server error''"
    by (simp add: delete_configuration_eq)
  from a show "store (snd (delete_configuration fault1 fault2 i w)) = store w"
    by (simp add: delete_configuration_eq)
next
  assume a: "\<not> list_ex (\<lambda>l. ota_configuration_id l = Some i) (sync_logs (store w))
        \<and> list_ex (\<lambda>c. id_cfg c = i) (configurations (store w))
        \<and> fault1 = None \<and> fault2 = None"
  then show "fst (delete_configuration fault1 fault2 i w)
        = Message_response ''OTA configuration deleted successfully''"
    by (simp add: delete_configuration_eq)
  from a show "configurations (store (snd (delete_configuration fault1 fault2 i w)))
        = filter (\<lambda>c. id_cfg c \<noteq> i) (configurations (store w))"
    by (simp add: delete_configuration_eq)
qed

text \<open>
  On the store in which configuration 1 has a log entry: deleting configuration 1 is
  refused, deleting configuration 2 succeeds, and the log entry is stored after both.
\<close>

theorem delete_keeps_sync_logs_witness:
  "fst (delete_configuration None None 1 synced_world)
     = Error_response 500 ''Internal server error''
   \<and> store (snd (delete_configuration None None 1 synced_world)) = store synced_world
   \<and> fst (delete_configuration None None 2 synced_world)
     = Message_response ''OTA configuration deleted successfully''
   \<and> map id_cfg (configurations (store (snd (delete_configuration None None 2 synced_world))))
     = [1, 3]
   \<and> map ota_configuration_id
       (sync_logs (store (snd (delete_configuration None None 2 synced_world)))) = [Some 1]"
proof -
  have l1: "list_ex (\<lambda>l. ota_configuration_id l = Some 1) (sync_logs (store synced_world))"
    using synced_world_eval by (auto simp: list_ex_iff)
  have c1: "list_ex (\<lambda>c. id_cfg c = 1) (configurations (store synced_world))"
    using synced_world_eval by (auto simp: list_ex_iff)
  have l2: "\<not> list_ex (\<lambda>l. ota_configuration_id l = Some 2) (sync_logs (store synced_world))"
    using synced_world_eval by (auto simp: list_ex_iff)
  have c2: "list_ex (\<lambda>c. id_cfg c = 2) (configurations (store synced_world))"
    using synced_world_eval by (auto simp: list_ex_iff)
  note t1 = delete_keeps_sync_logs[of None None 1 synced_world None None None None]
  note t2 = delete_keeps_sync_logs[of None None 2 synced_world None None None None]
  from t1 l1 c1 have a: "fst (delete_configuration None None 1 synced_world)
     = Error_response 500 ''Internal server error''
     \<and> store (snd (delete_configuration None None 1 synced_world)) = store synced_world"
    by blast
  from t2 l2 c2 have b: "fst (delete_configuration None None 2 synced_world)
     = Message_response ''OTA configuration deleted successfully''
     \<and> configurations (store (snd (delete_configuration None None 2 synced_world)))
        = filter (\<lambda>c. id_cfg c \<noteq> 2) (configurations (store synced_world))"
    by blast
  have "map id_cfg (filter (\<lambda>c. id_cfg c \<noteq> 2) (configurations (store synced_world)))
      = filter (\<lambda>n. n \<noteq> 2) (map id_cfg (configurations (store synced_world)))"
    by (simp add: filter_map comp_def)
  with synced_world_eval b
  have d: "map id_cfg (configurations (store (snd (delete_configuration None None 2 synced_world))))
     = [1, 3]"
    by simp
  from t2 synced_world_eval have e: "map ota_configuration_id
       (sync_logs (store (snd (delete_configuration None None 2 synced_world)))) = [Some 1]"
    by simp
  from a b d e show ?thesis by blast
qed

end
